theory Spec2Isabelle
  imports Main "HOL-Library.Word" "HOL-Library.AList"
    "HOL-Library.Char_ord" "HOL-Library.List_Lexorder"
begin

section \<open>The error taxonomy (errors.go)\<close>

text \<open>
  \<open>ErrorType\<close> is a string type with six named constants; \<open>Error\<close> is the struct
  every operation of the client returns. The underlying \<open>Cause\<close> (a Go \<open>error\<close>
  value) is kept by its text.
\<close>

datatype ErrorType =
    ErrorTypeConfig
  | ErrorTypeNetwork
  | ErrorTypeRequest
  | ErrorTypeResponse
  | ErrorTypeAPI
  | ErrorTypeValidation

record Error =
  Cause :: "string option"
  Type :: ErrorType
  Message :: string
  Response :: string
  StatusCode :: int

definition IsType :: "Error \<Rightarrow> ErrorType \<Rightarrow> bool" where
  "IsType e errorType \<longleftrightarrow> Type e = errorType"

definition IsAPIError :: "Error \<Rightarrow> int \<Rightarrow> bool" where
  "IsAPIError e statusCode \<longleftrightarrow> Type e = ErrorTypeAPI \<and> StatusCode e = statusCode"

definition NewConfigError :: "string \<Rightarrow> Error" where
  "NewConfigError message =
     \<lparr>Cause = None, Type = ErrorTypeConfig, Message = message, Response = [], StatusCode = 0\<rparr>"

definition NewValidationError :: "string \<Rightarrow> Error" where
  "NewValidationError message =
     \<lparr>Cause = None, Type = ErrorTypeValidation, Message = message, Response = [], StatusCode = 0\<rparr>"

text \<open>
  A Go \<open>error\<close> returned by the client is either one of its own \<open>*Error\<close> values or
  the error of the caller's context (\<open>ctx.Err()\<close>), which \<open>makeRequest\<close> hands back
  as it is.
\<close>

datatype context_error = Canceled | DeadlineExceeded

datatype go_error = MailpitError Error | ContextError context_error

section \<open>Decimal formatting (strconv.Itoa, the verb \<open>%d\<close>)\<close>

definition digit_char :: "nat \<Rightarrow> char" where
  "digit_char d = char_of (48 + d)"

function utoa :: "nat \<Rightarrow> string" where
  "utoa n = (if n < 10 then [digit_char n] else utoa (n div 10) @ [digit_char (n mod 10)])"
  by pat_completeness auto
termination
  by (relation "measure (\<lambda>n. n)") auto

declare utoa.simps [simp del]

definition Itoa :: "int \<Rightarrow> string" where
  "Itoa i = (if i < 0 then CHR ''-'' # utoa (nat (- i)) else utoa (nat i))"

section \<open>HTTP values (net/http) and the world outside the client\<close>

text \<open>
  A response body is a reader: \<open>io.ReadAll\<close> returns the bytes it could read and,
  possibly, the error that stopped it.
\<close>

record body_reader =
  body_data :: string
  body_error :: "string option"

definition ReadAll :: "body_reader \<Rightarrow> string \<times> string option" where
  "ReadAll b = (body_data b, body_error b)"

record http_Response =
  resp_StatusCode :: int
  resp_Body :: body_reader

record http_Request =
  req_Method :: string
  req_URL :: string
  req_Header :: "(string \<times> string) list"
  req_Body :: "string option"

definition Header_Set :: "string \<Rightarrow> string \<Rightarrow> http_Request \<Rightarrow> http_Request" where
  "Header_Set k v req = req\<lparr>req_Header := AList.update k v (req_Header req)\<rparr>"

text \<open>The standard base64 encoding that \<open>SetBasicAuth\<close> applies to \<open>user:password\<close>.\<close>

definition base64_alphabet :: string where
  "base64_alphabet = ''ABCDEFGHIJKLMNOPQRSTUVWXYZabcdefghijklmnopqrstuvwxyz0123456789+/''"

definition b64 :: "nat \<Rightarrow> char" where
  "b64 n = base64_alphabet ! (n mod 64)"

fun base64_encode :: "nat list \<Rightarrow> string" where
  "base64_encode [] = []"
| "base64_encode [a] = [b64 (a div 4), b64 ((a mod 4) * 16), CHR ''='', CHR ''='']"
| "base64_encode [a, b] =
     [b64 (a div 4), b64 ((a mod 4) * 16 + b div 16), b64 ((b mod 16) * 4), CHR ''='']"
| "base64_encode (a # b # c # rest) =
     [b64 (a div 4), b64 ((a mod 4) * 16 + b div 16), b64 ((b mod 16) * 4 + c div 64),
      b64 (c mod 64)] @ base64_encode rest"

definition SetBasicAuth :: "string \<Rightarrow> string \<Rightarrow> http_Request \<Rightarrow> http_Request" where
  "SetBasicAuth username password req =
     Header_Set ''Authorization''
       (''Basic '' @ base64_encode (map of_char (username @ '':'' @ password))) req"

text \<open>
  What the client cannot decide is given from outside, as a \<open>world\<close>:
  \<^item> \<open>new_request_error meth url\<close> is the error of \<open>http.NewRequestWithContext\<close>
    for this HTTP verb and URL, if it has one;
  \<^item> \<open>round_trip n req\<close> is what \<open>HTTPClient.Do\<close> returns at its \<open>n\<close>-th invocation
    (counted from 0): a transport error, by its text, or a response;
  \<^item> \<open>ctx_done n\<close> says which case of the \<open>n\<close>-th \<open>select\<close> between \<open>ctx.Done()\<close>
    and \<open>time.After(RetryDelay)\<close> fires: \<open>Some e\<close> when the context is done first, with
    \<open>ctx.Err() = e\<close>, and \<open>None\<close> when the timer fires.
  The state threaded through every call records the outcome of each invocation of the
  transport, in order, and the number of \<open>select\<close>s waited out so far.
\<close>

record world =
  new_request_error :: "string \<Rightarrow> string \<Rightarrow> string option"
  round_trip :: "nat \<Rightarrow> http_Request \<Rightarrow> string + http_Response"
  ctx_done :: "nat \<Rightarrow> context_error option"

record net_state =
  log :: "(string + http_Response) list"
  waited :: nat

definition NewRequestWithContext ::
  "world \<Rightarrow> string \<Rightarrow> string \<Rightarrow> string option \<Rightarrow> string + http_Request" where
  "NewRequestWithContext w meth u body =
     (case new_request_error w meth u of
        Some err \<Rightarrow> Inl err
      | None \<Rightarrow> Inr \<lparr>req_Method = meth, req_URL = u, req_Header = [], req_Body = body\<rparr>)"

definition Do :: "world \<Rightarrow> http_Request \<Rightarrow> net_state \<Rightarrow> (string + http_Response) \<times> net_state" where
  "Do w req st =
     (let out = round_trip w (length (log st)) req in (out, st\<lparr>log := log st @ [out]\<rparr>))"

section \<open>Query strings (net/url)\<close>

text \<open>
  The escaping of the standard library: which bytes a part of a URL escapes
  (\<open>shouldEscape\<close>), \<open>escape\<close> and \<open>unescape\<close>, and on top of them \<open>url.Values\<close> with
  \<open>Set\<close>, \<open>Encode\<close> and \<open>ParseQuery\<close>. A \<open>url.Values\<close> is a map from keys to lists of
  values; it is kept as an association list with one entry for each key.
\<close>

datatype encoding =
    encodePath
  | encodePathSegment
  | encodeHost
  | encodeZone
  | encodeUserPassword
  | encodeQueryComponent
  | encodeFragment

datatype url_error = EscapeError string | InvalidHostError string | ParseError string

definition between :: "char \<Rightarrow> char \<Rightarrow> char \<Rightarrow> bool" where
  "between lo hi c \<longleftrightarrow> lo \<le> c \<and> c \<le> hi"

definition is_alnum :: "char \<Rightarrow> bool" where
  "is_alnum c \<longleftrightarrow>
     between CHR ''a'' CHR ''z'' c \<or> between CHR ''A'' CHR ''Z'' c \<or> between CHR ''0'' CHR ''9'' c"

definition shouldEscape :: "char \<Rightarrow> encoding \<Rightarrow> bool" where
  "shouldEscape c mode =
     (if is_alnum c then False
      else if (mode = encodeHost \<or> mode = encodeZone) \<and>
              c \<in> set [CHR ''!'', CHR ''$'', CHR ''&'', CHR 0x27, CHR ''('', CHR '')'', CHR ''*'',
                        CHR ''+'', CHR '','', CHR '';'', CHR ''='', CHR '':'', CHR ''['', CHR '']'',
                        CHR ''<'', CHR ''>'', CHR 0x22]
      then False
      else if c \<in> set [CHR ''-'', CHR ''_'', CHR ''.'', CHR ''~''] then False
      else if c \<in> set [CHR ''$'', CHR ''&'', CHR ''+'', CHR '','', CHR ''/'', CHR '':'', CHR '';'',
                        CHR ''='', CHR ''?'', CHR ''@''] \<and>
              mode \<noteq> encodeHost \<and> mode \<noteq> encodeZone
      then
        (case mode of
           encodePath \<Rightarrow> c = CHR ''?''
         | encodePathSegment \<Rightarrow> c = CHR ''/'' \<or> c = CHR '';'' \<or> c = CHR '','' \<or> c = CHR ''?''
         | encodeUserPassword \<Rightarrow> c = CHR ''@'' \<or> c = CHR ''/'' \<or> c = CHR ''?'' \<or> c = CHR '':''
         | encodeQueryComponent \<Rightarrow> True
         | encodeFragment \<Rightarrow> False
         | _ \<Rightarrow> True)
      else if mode = encodeFragment \<and> c \<in> set [CHR ''!'', CHR ''('', CHR '')'', CHR ''*''] then False
      else True)"

definition upperhex :: string where
  "upperhex = ''0123456789ABCDEF''"

definition ishex :: "char \<Rightarrow> bool" where
  "ishex c \<longleftrightarrow>
     between CHR ''0'' CHR ''9'' c \<or> between CHR ''a'' CHR ''f'' c \<or> between CHR ''A'' CHR ''F'' c"

definition unhex :: "char \<Rightarrow> nat" where
  "unhex c =
     (if between CHR ''0'' CHR ''9'' c then of_char c - 48
      else if between CHR ''a'' CHR ''f'' c then of_char c - 97 + 10
      else if between CHR ''A'' CHR ''F'' c then of_char c - 65 + 10
      else 0)"

text \<open>
  \<open>escape\<close> writes \<open>+\<close> for a space of a query component, \<open>%XY\<close> for any other byte
  that \<open>shouldEscape\<close> names, and the byte itself otherwise.
\<close>

fun escape :: "string \<Rightarrow> encoding \<Rightarrow> string" where
  "escape [] mode = []"
| "escape (c # s) mode =
     (if c = CHR '' '' \<and> mode = encodeQueryComponent then CHR ''+'' # escape s mode
      else if shouldEscape c mode then
        CHR ''%'' # upperhex ! (of_char c div 16) # upperhex ! (of_char c mod 16) # escape s mode
      else c # escape s mode)"

text \<open>
  \<open>unescape\<close> first checks that every \<open>%\<close> is followed by two hexadecimal digits (and,
  in a host, what may be written there), then converts.
\<close>

fun unescape_check :: "encoding \<Rightarrow> string \<Rightarrow> url_error option" where
  "unescape_check mode [] = None"
| "unescape_check mode (c # s) =
     (if c = CHR ''%'' then
        (case s of
           h1 # h2 # rest \<Rightarrow>
             if \<not> ishex h1 \<or> \<not> ishex h2 then Some (EscapeError (take 3 (c # s)))
             else if mode = encodeHost \<and> unhex h1 < 8 \<and> [c, h1, h2] \<noteq> ''%25'' then
               Some (EscapeError [c, h1, h2])
             else if mode = encodeZone \<and> [c, h1, h2] \<noteq> ''%25'' \<and>
                     char_of (unhex h1 * 16 + unhex h2) \<noteq> CHR '' '' \<and>
                     shouldEscape (char_of (unhex h1 * 16 + unhex h2)) encodeHost then
               Some (EscapeError [c, h1, h2])
             else unescape_check mode rest
         | _ \<Rightarrow> Some (EscapeError (take 3 (c # s))))
      else if c = CHR ''+'' then unescape_check mode s
      else if (mode = encodeHost \<or> mode = encodeZone) \<and> (of_char c :: nat) < 128 \<and>
              shouldEscape c encodeHost then
        Some (InvalidHostError [c])
      else unescape_check mode s)"

fun unescape_bytes :: "encoding \<Rightarrow> string \<Rightarrow> string" where
  "unescape_bytes mode [] = []"
| "unescape_bytes mode (c # s) =
     (if c = CHR ''%'' then
        (case s of
           h1 # h2 # rest \<Rightarrow> char_of (unhex h1 * 16 + unhex h2) # unescape_bytes mode rest
         | _ \<Rightarrow> [])
      else if c = CHR ''+'' then
        (if mode = encodeQueryComponent then CHR '' '' else CHR ''+'') # unescape_bytes mode s
      else c # unescape_bytes mode s)"

definition unescape :: "string \<Rightarrow> encoding \<Rightarrow> url_error + string" where
  "unescape s mode =
     (case unescape_check mode s of Some err \<Rightarrow> Inl err | None \<Rightarrow> Inr (unescape_bytes mode s))"

definition QueryEscape :: "string \<Rightarrow> string" where
  "QueryEscape s = escape s encodeQueryComponent"

definition QueryUnescape :: "string \<Rightarrow> url_error + string" where
  "QueryUnescape s = unescape s encodeQueryComponent"

type_synonym Values = "(string \<times> string list) list"

definition Values_Set :: "string \<Rightarrow> string \<Rightarrow> Values \<Rightarrow> Values" where
  "Values_Set key value v = AList.update key [value] v"

definition Values_lookup :: "Values \<Rightarrow> string \<Rightarrow> string list" where
  "Values_lookup v key = (case map_of v key of Some vs \<Rightarrow> vs | None \<Rightarrow> [])"

definition Values_append :: "string \<Rightarrow> string \<Rightarrow> Values \<Rightarrow> Values" where
  "Values_append key value v = AList.update key (Values_lookup v key @ [value]) v"

text \<open>\<open>Encode\<close> writes the keys in sorted order, \<open>key=value\<close> joined by \<open>&\<close>.\<close>

definition Values_Encode :: "Values \<Rightarrow> string" where
  "Values_Encode v =
     (if length v = 0 then []
      else
        fold (\<lambda>k buf.
                fold (\<lambda>x buf. (if 0 < length buf then buf @ ''&'' else buf)
                                 @ QueryEscape k @ ''='' @ QueryEscape x)
                     (Values_lookup v k) buf)
             (sort (map fst v)) [])"

text \<open>\<open>strings.Cut\<close> for a separator of one byte.\<close>

definition Cut :: "string \<Rightarrow> char \<Rightarrow> string \<times> string \<times> bool" where
  "Cut s sep =
     (if sep \<in> set s then (takeWhile (\<lambda>c. c \<noteq> sep) s, tl (dropWhile (\<lambda>c. c \<noteq> sep) s), True)
      else (s, [], False))"

lemma Cut_shorter:
  assumes "s \<noteq> []" and "(key, rest, found) = Cut s sep"
  shows "length rest < length s"
proof (cases "sep \<in> set s")
  case True
  then have "dropWhile (\<lambda>c. c \<noteq> sep) s \<noteq> []" by simp
  then have "length (tl (dropWhile (\<lambda>c. c \<noteq> sep) s)) < length (dropWhile (\<lambda>c. c \<noteq> sep) s)"
    by simp
  also have "\<dots> \<le> length s" by (rule length_dropWhile_le)
  finally show ?thesis using assms True by (simp add: Cut_def)
next
  case False
  then show ?thesis using assms by (simp add: Cut_def)
qed

function parseQuery :: "Values \<Rightarrow> string \<Rightarrow> url_error option \<Rightarrow> Values \<times> url_error option" where
  "parseQuery m query err =
     (if query = [] then (m, err)
      else
        (case Cut query CHR ''&'' of
           (key, query', _) \<Rightarrow>
             if CHR '';'' \<in> set key then
               parseQuery m query' (Some (ParseError ''invalid semicolon separator in query''))
             else if key = [] then parseQuery m query' err
             else
               (case Cut key CHR ''='' of
                  (key, value, _) \<Rightarrow>
                    (case QueryUnescape key of
                       Inl err1 \<Rightarrow> parseQuery m query' (if err = None then Some err1 else err)
                     | Inr key1 \<Rightarrow>
                         (case QueryUnescape value of
                            Inl err1 \<Rightarrow> parseQuery m query' (if err = None then Some err1 else err)
                          | Inr value1 \<Rightarrow> parseQuery (Values_append key1 value1 m) query' err)))))"
  by pat_completeness auto
termination
  by (relation "measure (\<lambda>(m, query, err). length query)") (auto intro: Cut_shorter)

declare parseQuery.simps [simp del]

definition ParseQuery :: "string \<Rightarrow> Values \<times> url_error option" where
  "ParseQuery query = parseQuery [] query None"

text \<open>
  For the proofs about \<open>Encode\<close>: the text of one pair, the pairs of a \<open>Values\<close> in
  the order of given keys, and the step that adds a pair to the buffer.
\<close>

definition segment :: "string \<Rightarrow> string \<Rightarrow> string" where
  "segment k x = QueryEscape k @ ''='' @ QueryEscape x"

definition pair_segment :: "string \<times> string \<Rightarrow> string" where
  "pair_segment p = segment (fst p) (snd p)"

definition query_pairs :: "Values \<Rightarrow> string list \<Rightarrow> (string \<times> string) list" where
  "query_pairs v ks = concat (map (\<lambda>k. map (Pair k) (Values_lookup v k)) ks)"

definition add_segment :: "string \<Rightarrow> string \<Rightarrow> string" where
  "add_segment buf s = (if buf \<noteq> [] then buf @ ''&'' else buf) @ s"

section \<open>Parsing and printing a URL (net/url)\<close>

text \<open>
  \<open>url.Parse\<close> and \<open>URL.String\<close>, after the sources of the Go distribution (go1.22).
  \<open>NewClient\<close> accepts whatever \<open>url.Parse\<close> accepts; what that is, is decided here.
\<close>

record Userinfo =
  username :: string
  password :: string
  passwordSet :: bool

record URL =
  Scheme :: string
  Opaque :: string
  User :: "Userinfo option"
  Host :: string
  Path :: string
  RawPath :: string
  OmitHost :: bool
  ForceQuery :: bool
  RawQuery :: string
  Fragment :: string
  RawFragment :: string

definition empty_URL :: URL where
  "empty_URL =
     \<lparr>Scheme = [], Opaque = [], User = None, Host = [], Path = [], RawPath = [],
      OmitHost = False, ForceQuery = False, RawQuery = [], Fragment = [], RawFragment = []\<rparr>"

definition IsAbs :: "URL \<Rightarrow> bool" where
  "IsAbs u \<longleftrightarrow> Scheme u \<noteq> []"

subsection \<open>Helpers of package strings and strconv\<close>

definition HasPrefix :: "string \<Rightarrow> string \<Rightarrow> bool" where
  "HasPrefix s pre \<longleftrightarrow> take (length pre) s = pre"

definition HasSuffix :: "string \<Rightarrow> string \<Rightarrow> bool" where
  "HasSuffix s suf \<longleftrightarrow> length suf \<le> length s \<and> drop (length s - length suf) s = suf"

definition Count :: "string \<Rightarrow> char \<Rightarrow> nat" where
  "Count s c = length (filter (\<lambda>x. x = c) s)"

fun Index :: "string \<Rightarrow> string \<Rightarrow> nat option" where
  "Index [] sub = (if sub = [] then Some 0 else None)"
| "Index (c # s) sub =
     (if take (length sub) (c # s) = sub then Some 0 else map_option Suc (Index s sub))"

definition LastIndex :: "string \<Rightarrow> char \<Rightarrow> nat option" where
  "LastIndex s c =
     (if c \<in> set s then Some (length s - 1 - length (takeWhile (\<lambda>x. x \<noteq> c) (rev s))) else None)"

definition ToLower :: "string \<Rightarrow> string" where
  "ToLower s = map (\<lambda>c. if between CHR ''A'' CHR ''Z'' c then char_of (of_char c + (32::nat)) else c) s"

definition lowerhex :: string where
  "lowerhex = ''0123456789abcdef''"

text \<open>
  \<open>strconv.Quote\<close> on the bytes of a string. Bytes from 0x80 on are written as they
  are, which is what Go does for the printable characters of valid UTF-8.
\<close>

definition quote_byte :: "char \<Rightarrow> string" where
  "quote_byte c =
     (if c = CHR 0x22 then [CHR 0x5C, CHR 0x22]
      else if c = CHR 0x5C then [CHR 0x5C, CHR 0x5C]
      else if c = CHR 0x07 then [CHR 0x5C, CHR ''a'']
      else if c = CHR 0x08 then [CHR 0x5C, CHR ''b'']
      else if c = CHR 0x0C then [CHR 0x5C, CHR ''f'']
      else if c = CHR 0x0A then [CHR 0x5C, CHR ''n'']
      else if c = CHR 0x0D then [CHR 0x5C, CHR ''r'']
      else if c = CHR 0x09 then [CHR 0x5C, CHR ''t'']
      else if c = CHR 0x0B then [CHR 0x5C, CHR ''v'']
      else if (of_char c :: nat) < 32 \<or> c = CHR 0x7F then
        [CHR 0x5C, CHR ''x'', lowerhex ! (of_char c div 16), lowerhex ! (of_char c mod 16)]
      else [c])"

definition Quote :: "string \<Rightarrow> string" where
  "Quote s = CHR 0x22 # concat (map quote_byte s) @ [CHR 0x22]"

fun url_error_text :: "url_error \<Rightarrow> string" where
  "url_error_text (EscapeError e) = ''invalid URL escape '' @ Quote e"
| "url_error_text (InvalidHostError e) = ''invalid character '' @ Quote e @ '' in host name''"
| "url_error_text (ParseError e) = e"

subsection \<open>Parse\<close>

definition stringContainsCTLByte :: "string \<Rightarrow> bool" where
  "stringContainsCTLByte s \<longleftrightarrow> (\<exists>b\<in>set s. b < CHR '' '' \<or> b = CHR 0x7F)"

datatype scheme_end = NoScheme | MissingScheme | SchemeEnd nat

fun scan_scheme :: "nat \<Rightarrow> string \<Rightarrow> scheme_end" where
  "scan_scheme i [] = NoScheme"
| "scan_scheme i (c # cs) =
     (if between CHR ''a'' CHR ''z'' c \<or> between CHR ''A'' CHR ''Z'' c then scan_scheme (Suc i) cs
      else if between CHR ''0'' CHR ''9'' c \<or> c = CHR ''+'' \<or> c = CHR ''-'' \<or> c = CHR ''.'' then
        (if i = 0 then NoScheme else scan_scheme (Suc i) cs)
      else if c = CHR '':'' then (if i = 0 then MissingScheme else SchemeEnd i)
      else NoScheme)"

definition getScheme :: "string \<Rightarrow> url_error + string \<times> string" where
  "getScheme rawURL =
     (case scan_scheme 0 rawURL of
        NoScheme \<Rightarrow> Inr ([], rawURL)
      | MissingScheme \<Rightarrow> Inl (ParseError ''missing protocol scheme'')
      | SchemeEnd i \<Rightarrow> Inr (take i rawURL, drop (Suc i) rawURL))"

definition validOptionalPort :: "string \<Rightarrow> bool" where
  "validOptionalPort port \<longleftrightarrow>
     (case port of
        [] \<Rightarrow> True
      | c # ds \<Rightarrow> c = CHR '':'' \<and> (\<forall>b\<in>set ds. between CHR ''0'' CHR ''9'' b))"

definition validUserinfo :: "string \<Rightarrow> bool" where
  "validUserinfo s \<longleftrightarrow>
     (\<forall>r\<in>set s. is_alnum r \<or>
        r \<in> set [CHR ''-'', CHR ''.'', CHR ''_'', CHR '':'', CHR ''~'', CHR ''!'', CHR ''$'',
                  CHR ''&'', CHR 0x27, CHR ''('', CHR '')'', CHR ''*'', CHR ''+'', CHR '','',
                  CHR '';'', CHR ''='', CHR ''%'', CHR ''@''])"

definition invalid_port :: "string \<Rightarrow> url_error" where
  "invalid_port colonPort = ParseError (''invalid port '' @ Quote colonPort @ '' after host'')"

definition parseHost :: "string \<Rightarrow> url_error + string" where
  "parseHost host =
     (if HasPrefix host ''['' then
        (case LastIndex host CHR '']'' of
           None \<Rightarrow> Inl (ParseError ''missing ']' in host'')
         | Some i \<Rightarrow>
             if \<not> validOptionalPort (drop (Suc i) host) then Inl (invalid_port (drop (Suc i) host))
             else
               (case Index (take i host) ''%25'' of
                  Some zone \<Rightarrow>
                    (case unescape (take zone host) encodeHost of
                       Inl err \<Rightarrow> Inl err
                     | Inr host1 \<Rightarrow>
                         (case unescape (drop zone (take i host)) encodeZone of
                            Inl err \<Rightarrow> Inl err
                          | Inr host2 \<Rightarrow>
                              (case unescape (drop i host) encodeHost of
                                 Inl err \<Rightarrow> Inl err
                               | Inr host3 \<Rightarrow> Inr (host1 @ host2 @ host3))))
                | None \<Rightarrow> unescape host encodeHost))
      else
        (case LastIndex host CHR '':'' of
           Some i \<Rightarrow>
             if \<not> validOptionalPort (drop i host) then Inl (invalid_port (drop i host))
             else unescape host encodeHost
         | None \<Rightarrow> unescape host encodeHost))"

definition parseAuthority :: "string \<Rightarrow> url_error + Userinfo option \<times> string" where
  "parseAuthority authority =
     (case LastIndex authority CHR ''@'' of
        None \<Rightarrow>
          (case parseHost authority of Inl err \<Rightarrow> Inl err | Inr host \<Rightarrow> Inr (None, host))
      | Some i \<Rightarrow>
          (case parseHost (drop (Suc i) authority) of
             Inl err \<Rightarrow> Inl err
           | Inr host \<Rightarrow>
               (let userinfo = take i authority in
                if \<not> validUserinfo userinfo then Inl (ParseError ''net/url: invalid userinfo'')
                else if CHR '':'' \<notin> set userinfo then
                  (case unescape userinfo encodeUserPassword of
                     Inl err \<Rightarrow> Inl err
                   | Inr name \<Rightarrow>
                       Inr (Some \<lparr>username = name, password = [], passwordSet = False\<rparr>, host))
                else
                  (case Cut userinfo CHR '':'' of
                     (name0, pass0, _) \<Rightarrow>
                       (case unescape name0 encodeUserPassword of
                          Inl err \<Rightarrow> Inl err
                        | Inr name \<Rightarrow>
                            (case unescape pass0 encodeUserPassword of
                               Inl err \<Rightarrow> Inl err
                             | Inr pass \<Rightarrow>
                                 Inr (Some \<lparr>username = name, password = pass, passwordSet = True\<rparr>,
                                      host)))))))"

definition setPath :: "URL \<Rightarrow> string \<Rightarrow> url_error + URL" where
  "setPath u p =
     (case unescape p encodePath of
        Inl err \<Rightarrow> Inl err
      | Inr path \<Rightarrow>
          Inr (u\<lparr>Path := path, RawPath := (if p = escape path encodePath then [] else p)\<rparr>))"

definition setFragment :: "URL \<Rightarrow> string \<Rightarrow> url_error + URL" where
  "setFragment u f =
     (case unescape f encodeFragment of
        Inl err \<Rightarrow> Inl err
      | Inr frag \<Rightarrow>
          Inr (u\<lparr>Fragment := frag,
                 RawFragment := (if f = escape frag encodeFragment then [] else f)\<rparr>))"

text \<open>\<open>parse\<close> with \<open>viaRequest = false\<close>, the only way \<open>Parse\<close> calls it.\<close>

definition parse :: "string \<Rightarrow> url_error + URL" where
  "parse rawURL =
     (if stringContainsCTLByte rawURL then
        Inl (ParseError ''net/url: invalid control character in URL'')
      else if rawURL = ''*'' then Inr (empty_URL\<lparr>Path := ''*''\<rparr>)
      else
        (case getScheme rawURL of
           Inl err \<Rightarrow> Inl err
         | Inr (scheme, rest0) \<Rightarrow>
             (let url = empty_URL\<lparr>Scheme := ToLower scheme\<rparr>;
                  (url, rest) =
                    (if HasSuffix rest0 ''?'' \<and> Count rest0 CHR ''?'' = 1 then
                       (url\<lparr>ForceQuery := True\<rparr>, take (length rest0 - 1) rest0)
                     else
                       (case Cut rest0 CHR ''?'' of
                          (before, after, _) \<Rightarrow> (url\<lparr>RawQuery := after\<rparr>, before)))
              in
                if \<not> HasPrefix rest ''/'' \<and> Scheme url \<noteq> [] then Inr (url\<lparr>Opaque := rest\<rparr>)
                else if \<not> HasPrefix rest ''/'' \<and>
                        CHR '':'' \<in> set (fst (Cut rest CHR ''/'')) then
                  Inl (ParseError ''first path segment in URL cannot contain colon'')
                else if (Scheme url \<noteq> [] \<or> \<not> HasPrefix rest ''///'') \<and> HasPrefix rest ''//'' then
                  (let authority0 = drop 2 rest;
                       (authority, rest') =
                         (case Index authority0 ''/'' of
                            Some i \<Rightarrow> (take i authority0, drop i authority0)
                          | None \<Rightarrow> (authority0, []))
                   in case parseAuthority authority of
                        Inl err \<Rightarrow> Inl err
                      | Inr (user, host) \<Rightarrow> setPath (url\<lparr>User := user, Host := host\<rparr>) rest')
                else if Scheme url \<noteq> [] \<and> HasPrefix rest ''/'' then
                  setPath (url\<lparr>OmitHost := True\<rparr>) rest
                else setPath url rest)))"

definition parse_failure :: "string \<Rightarrow> url_error \<Rightarrow> string" where
  "parse_failure u err = ''parse '' @ Quote u @ '': '' @ url_error_text err"

definition url_Parse :: "string \<Rightarrow> string + URL" where
  "url_Parse rawURL =
     (case Cut rawURL CHR ''#'' of
        (u, frag, _) \<Rightarrow>
          (case parse u of
             Inl err \<Rightarrow> Inl (parse_failure u err)
           | Inr url \<Rightarrow>
               if frag = [] then Inr url
               else
                 (case setFragment url frag of
                    Inl err \<Rightarrow> Inl (parse_failure rawURL err)
                  | Inr url' \<Rightarrow> Inr url')))"

subsection \<open>String\<close>

definition validEncoded :: "string \<Rightarrow> encoding \<Rightarrow> bool" where
  "validEncoded s mode \<longleftrightarrow>
     (\<forall>c\<in>set s.
        c \<in> set [CHR ''!'', CHR ''$'', CHR ''&'', CHR 0x27, CHR ''('', CHR '')'', CHR ''*'',
                  CHR ''+'', CHR '','', CHR '';'', CHR ''='', CHR '':'', CHR ''@'', CHR ''['',
                  CHR '']'', CHR ''%''] \<or>
        \<not> shouldEscape c mode)"

definition EscapedPath :: "URL \<Rightarrow> string" where
  "EscapedPath u =
     (if RawPath u \<noteq> [] \<and> validEncoded (RawPath u) encodePath \<and>
         unescape (RawPath u) encodePath = Inr (Path u) then RawPath u
      else if Path u = ''*'' then ''*''
      else escape (Path u) encodePath)"

definition EscapedFragment :: "URL \<Rightarrow> string" where
  "EscapedFragment u =
     (if RawFragment u \<noteq> [] \<and> validEncoded (RawFragment u) encodeFragment \<and>
         unescape (RawFragment u) encodeFragment = Inr (Fragment u) then RawFragment u
      else escape (Fragment u) encodeFragment)"

definition Userinfo_String :: "Userinfo \<Rightarrow> string" where
  "Userinfo_String ui =
     escape (username ui) encodeUserPassword @
     (if passwordSet ui then '':'' @ escape (password ui) encodeUserPassword else [])"

definition URL_String :: "URL \<Rightarrow> string" where
  "URL_String u =
     (let buf = (if Scheme u \<noteq> [] then Scheme u @ '':'' else []);
          buf =
            (if Opaque u \<noteq> [] then buf @ Opaque u
             else
               (let buf =
                      (if Scheme u \<noteq> [] \<or> Host u \<noteq> [] \<or> User u \<noteq> None then
                         (if OmitHost u \<and> Host u = [] \<and> User u = None then buf
                          else
                            (let buf = (if Host u \<noteq> [] \<or> Path u \<noteq> [] \<or> User u \<noteq> None
                                        then buf @ ''//'' else buf);
                                 buf = (case User u of
                                          Some ui \<Rightarrow> buf @ Userinfo_String ui @ ''@''
                                        | None \<Rightarrow> buf)
                             in if Host u \<noteq> [] then buf @ escape (Host u) encodeHost else buf))
                       else buf);
                    path = EscapedPath u;
                    buf = (if path \<noteq> [] \<and> hd path \<noteq> CHR ''/'' \<and> Host u \<noteq> []
                           then buf @ ''/'' else buf);
                    buf = (if length buf = 0 \<and> CHR '':'' \<in> set (fst (Cut path CHR ''/''))
                           then buf @ ''./'' else buf)
                in buf @ path));
          buf = (if ForceQuery u \<or> RawQuery u \<noteq> [] then buf @ ''?'' @ RawQuery u else buf);
          buf = (if Fragment u \<noteq> [] then buf @ ''#'' @ EscapedFragment u else buf)
      in buf)"

section \<open>Configuration and client (client.go)\<close>

text \<open>
  Go's \<open>int\<close> is the 64-bit signed integer of the platforms the client is built for.
  \<open>MaxRetries\<close> is compared with the attempt counter that the retry loop increments, so
  it keeps its width; the other numbers are only compared and printed.
\<close>

record http_Client =
  client_Timeout :: int

record Config =
  HTTPClient :: "http_Client option"
  BaseURL :: string
  APIPath :: string
  Username :: string
  Password :: string
  APIKey :: string
  UserAgent :: string
  Timeout :: int
  MaxRetries :: "64 word"
  RetryDelay :: int

definition second :: int where
  "second = 1000000000"

definition DefaultConfig :: Config where
  "DefaultConfig =
     \<lparr>HTTPClient = Some \<lparr>client_Timeout = 30 * second\<rparr>,
      BaseURL = ''http://localhost:8025'',
      APIPath = ''/api/v1'',
      Username = [],
      Password = [],
      APIKey = [],
      UserAgent = ''mailpit-go-client/1.0.0'',
      Timeout = 30 * second,
      MaxRetries = 3,
      RetryDelay = 1 * second\<rparr>"



record client =
  config :: Config
  baseURL :: URL
  apiURL :: string
  userAgent :: string

subsection \<open>NewClient\<close>

definition config_error :: "string \<Rightarrow> string option \<Rightarrow> go_error" where
  "config_error message cause =
     MailpitError \<lparr>Cause = cause, Type = ErrorTypeConfig, Message = message,
       Response = [], StatusCode = 0\<rparr>"

definition NewClient :: "Config option \<Rightarrow> go_error + client" where
  "NewClient config' =
     (let config = (case config' of None \<Rightarrow> DefaultConfig | Some cfg \<Rightarrow> cfg) in
      if BaseURL config = [] then Inl (config_error ''BaseURL is required'' None)
      else
        (case url_Parse (BaseURL config) of
           Inl err \<Rightarrow> Inl (config_error (''invalid BaseURL: '' @ err) (Some err))
         | Inr parsed \<Rightarrow>
             (let config = (if APIPath config = [] then config\<lparr>APIPath := ''/api/v1''\<rparr> else config);
                  config = (if HTTPClient config = None
                            then config\<lparr>HTTPClient := Some \<lparr>client_Timeout = Timeout config\<rparr>\<rparr>
                            else config);
                  config = (if UserAgent config = []
                            then config\<lparr>UserAgent := ''mailpit-go-client/1.0.0''\<rparr> else config);
                  api = URL_String parsed @ APIPath config
              in Inr \<lparr>config = config, baseURL = parsed, apiURL = api,
                       userAgent = UserAgent config\<rparr>)))"

subsection \<open>makeRequest\<close>

definition set_request_headers :: "client \<Rightarrow> http_Request \<Rightarrow> http_Request" where
  "set_request_headers c req0 =
     (let req1 = Header_Set ''User-Agent'' (userAgent c) req0;
          req2 = Header_Set ''Content-Type'' ''application/json'' req1;
          req3 = Header_Set ''Accept'' ''application/json'' req2
      in if APIKey (config c) \<noteq> [] then
           Header_Set ''Authorization'' (''Bearer '' @ APIKey (config c)) req3
         else if Username (config c) \<noteq> [] \<and> Password (config c) \<noteq> [] then
           SetBasicAuth (Username (config c)) (Password (config c)) req3
         else req3)"

text \<open>
  The \<open>select\<close> that opens every attempt but the first: it returns the context's error
  when \<open>ctx.Done()\<close> fires first, and nothing when the retry delay has passed.
\<close>

definition select_retry_delay ::
  "world \<Rightarrow> 64 word \<Rightarrow> net_state \<Rightarrow> context_error option \<times> net_state" where
  "select_retry_delay w attempt st =
     (if 0 <s attempt then (ctx_done w (waited st), st\<lparr>waited := Suc (waited st)\<rparr>)
      else (None, st))"

definition request_error :: "string \<Rightarrow> go_error" where
  "request_error err =
     MailpitError \<lparr>Cause = Some err, Type = ErrorTypeRequest,
       Message = ''failed to create request: '' @ err, Response = [], StatusCode = 0\<rparr>"

definition network_error :: "string \<Rightarrow> go_error" where
  "network_error err =
     MailpitError \<lparr>Cause = Some err, Type = ErrorTypeNetwork,
       Message = ''request failed: '' @ err, Response = [], StatusCode = 0\<rparr>"

definition api_error :: "http_Response \<Rightarrow> go_error" where
  "api_error resp =
     (let b = fst (ReadAll (resp_Body resp)) in
      MailpitError \<lparr>Cause = None, Type = ErrorTypeAPI,
        Message = ''API request failed with status '' @ Itoa (resp_StatusCode resp),
        Response = b, StatusCode = resp_StatusCode resp\<rparr>)"

text \<open>
  The loop \<open>for attempt := 0; attempt <= c.config.MaxRetries; attempt++\<close>, with the
  state of the loop (\<open>attempt\<close>, \<open>lastErr\<close>) as arguments. The result is the pair that
  Go returns, response and error, each of which may be nil. The counter is a 64-bit
  integer and \<open>attempt++\<close> wraps, so the loop is a partial function: \<open>None\<close> stands
  for a call that never returns.
\<close>

partial_function (option) makeRequest_loop ::
  "world \<Rightarrow> client \<Rightarrow> string \<Rightarrow> string \<Rightarrow> string option \<Rightarrow> 64 word \<Rightarrow> go_error option
     \<Rightarrow> net_state \<Rightarrow> ((http_Response option \<times> go_error option) \<times> net_state) option" where
  [code]: "makeRequest_loop w c meth u body attempt lastErr st =
     (if attempt \<le>s MaxRetries (config c) then
        (case select_retry_delay w attempt st of
           (Some e, st1) \<Rightarrow> Some ((None, Some (ContextError e)), st1)
         | (None, st1) \<Rightarrow>
             (case NewRequestWithContext w meth u body of
                Inl err \<Rightarrow> Some ((None, Some (request_error err)), st1)
              | Inr req \<Rightarrow>
                  (case Do w (set_request_headers c req) st1 of
                     (Inl err, st2) \<Rightarrow>
                       makeRequest_loop w c meth u body (attempt + 1)
                         (Some (network_error err)) st2
                   | (Inr resp, st2) \<Rightarrow>
                       if 200 \<le> resp_StatusCode resp \<and> resp_StatusCode resp < 300 then
                         Some ((Some resp, None), st2)
                       else if 400 \<le> resp_StatusCode resp \<and> resp_StatusCode resp < 500
                               \<and> resp_StatusCode resp \<noteq> 429 then
                         Some ((None, Some (api_error resp)), st2)
                       else
                         makeRequest_loop w c meth u body (attempt + 1)
                           (Some (api_error resp)) st2)))
      else Some ((None, lastErr), st))"

definition makeRequest ::
  "world \<Rightarrow> client \<Rightarrow> string \<Rightarrow> string \<Rightarrow> string option \<Rightarrow> net_state
     \<Rightarrow> ((http_Response option \<times> go_error option) \<times> net_state) option" where
  "makeRequest w c meth endpoint body st =
     makeRequest_loop w c meth (apiURL c @ endpoint) body 0 None st"


text \<open>
  Three notions for stating what a call does: the request that every attempt sends, the
  outcomes of an attempt after which the loop goes on (a transport error, or a response
  that is neither a success nor a client error other than 429), and the error that the
  loop records for such an outcome.
\<close>

definition build_request :: "client \<Rightarrow> string \<Rightarrow> string \<Rightarrow> string option \<Rightarrow> http_Request" where
  "build_request c meth u body =
     set_request_headers c
       \<lparr>req_Method = meth, req_URL = u, req_Header = [], req_Body = body\<rparr>"

definition retried :: "string + http_Response \<Rightarrow> bool" where
  "retried out =
     (case out of
        Inl err \<Rightarrow> True
      | Inr resp \<Rightarrow>
          \<not> (200 \<le> resp_StatusCode resp \<and> resp_StatusCode resp < 300) \<and>
          \<not> (400 \<le> resp_StatusCode resp \<and> resp_StatusCode resp < 500
               \<and> resp_StatusCode resp \<noteq> 429))"

definition error_of :: "string + http_Response \<Rightarrow> go_error" where
  "error_of out = (case out of Inl err \<Rightarrow> network_error err | Inr resp \<Rightarrow> api_error resp)"

definition last_error :: "go_error option \<Rightarrow> (string + http_Response) list \<Rightarrow> go_error option" where
  "last_error lastErr outs = (if outs = [] then lastErr else Some (error_of (last outs)))"


definition attempt_outcomes ::
  "world \<Rightarrow> http_Request \<Rightarrow> nat \<Rightarrow> nat \<Rightarrow> (string + http_Response) list" where
  "attempt_outcomes w req n0 n = map (\<lambda>i. round_trip w (n0 + i) req) [0..<n]"

subsection \<open>parseResponse\<close>

text \<open>
  A call either returns or panics; the only panic of the client is the nil pointer
  dereference of \<open>resp.Body\<close> when \<open>resp\<close> is nil.
\<close>

datatype 'a outcome = Return 'a | Panic string

definition nil_dereference :: string where
  "nil_dereference = ''invalid memory address or nil pointer dereference''"

text \<open>
  \<open>json.Unmarshal(body, target)\<close> for a target of type \<open>'a\<close> is given by the decoder of
  that type: it returns the error, if any, and the target as the decoding left it. The
  target of \<open>parseResponse\<close> is an \<open>any\<close>, which may be nil.
\<close>

type_synonym 'a unmarshal = "string \<Rightarrow> 'a \<Rightarrow> string option \<times> 'a"

definition response_error :: "string \<Rightarrow> string \<Rightarrow> go_error" where
  "response_error what err =
     MailpitError \<lparr>Cause = Some err, Type = ErrorTypeResponse,
       Message = what @ err, Response = [], StatusCode = 0\<rparr>"

definition parseResponse ::
  "'a unmarshal \<Rightarrow> http_Response option \<Rightarrow> 'a option \<Rightarrow> (go_error option \<times> 'a option) outcome" where
  "parseResponse unm resp target =
     (case resp of
        None \<Rightarrow> Panic nil_dereference
      | Some r \<Rightarrow>
          (case target of
             None \<Rightarrow> Return (None, None)
           | Some t \<Rightarrow>
               (case ReadAll (resp_Body r) of
                  (body, Some err) \<Rightarrow>
                    Return (Some (response_error ''failed to read response body: '' err), Some t)
                | (body, None) \<Rightarrow>
                    if length body = 0 then Return (None, Some t)
                    else
                      (case unm body t of
                         (Some err, t') \<Rightarrow>
                           Return (Some (response_error ''failed to parse JSON response: '' err),
                                   Some t')
                       | (None, t') \<Rightarrow> Return (None, Some t')))))"

text \<open>
  \<open>json.Unmarshal\<close> itself on an \<open>any\<close>: a nil target is an \<open>InvalidUnmarshalError\<close>,
  whatever the data.
\<close>

definition json_Unmarshal_any :: "'a unmarshal \<Rightarrow> string \<Rightarrow> 'a option \<Rightarrow> string option \<times> 'a option" where
  "json_Unmarshal_any unm data target =
     (case target of
        None \<Rightarrow> (Some ''json: Unmarshal(nil)'', None)
      | Some t \<Rightarrow> (case unm data t of (err, t') \<Rightarrow> (err, Some t')))"

section \<open>Options of the list and search operations\<close>

record ListOptions =
  Query :: string
  Tag :: string
  Sort :: string
  Start :: int
  Limit :: int

record SearchOptions =
  Tag :: string
  Sort :: string
  Start :: int
  Limit :: int

definition ListOptions_ToURLValues :: "ListOptions option \<Rightarrow> Values" where
  "ListOptions_ToURLValues opts' =
     (case opts' of
        None \<Rightarrow> []
      | Some opts \<Rightarrow>
          (let values = [];
               values = (if ListOptions.Start opts > 0
                         then Values_Set ''start'' (Itoa (ListOptions.Start opts)) values else values);
               values = (if ListOptions.Limit opts > 0
                         then Values_Set ''limit'' (Itoa (ListOptions.Limit opts)) values else values);
               values = (if Query opts \<noteq> [] then Values_Set ''query'' (Query opts) values else values);
               values = (if ListOptions.Tag opts \<noteq> []
                         then Values_Set ''tag'' (ListOptions.Tag opts) values else values);
               values = (if ListOptions.Sort opts \<noteq> []
                         then Values_Set ''sort'' (ListOptions.Sort opts) values else values)
           in values))"

definition SearchOptions_ToURLValues :: "SearchOptions option \<Rightarrow> Values" where
  "SearchOptions_ToURLValues opts' =
     (case opts' of
        None \<Rightarrow> []
      | Some opts \<Rightarrow>
          (let values = [];
               values = (if SearchOptions.Start opts > 0
                         then Values_Set ''start'' (Itoa (SearchOptions.Start opts)) values else values);
               values = (if SearchOptions.Limit opts > 0
                         then Values_Set ''limit'' (Itoa (SearchOptions.Limit opts)) values else values);
               values = (if SearchOptions.Tag opts \<noteq> []
                         then Values_Set ''tag'' (SearchOptions.Tag opts) values else values);
               values = (if SearchOptions.Sort opts \<noteq> []
                         then Values_Set ''sort'' (SearchOptions.Sort opts) values else values)
           in values))"

section \<open>The operations of the client\<close>

text \<open>
  Every operation returns a value and an error, of which the model keeps the error
  (\<open>Inl\<close>) or else the value; it runs in the state of the network it is given and
  leaves a new one. The three ways in which the operations use a response:
  \<^item> \<open>decode_into\<close>: \<open>var result T; if err = c.parseResponse(resp, &result); ...\<close>, for a
    type \<open>T\<close> given by its zero value and its decoder;
  \<^item> \<open>read_body\<close>: \<open>defer resp.Body.Close(); body, err := io.ReadAll(resp.Body)\<close>;
  \<^item> \<open>close_body\<close>: \<open>defer resp.Body.Close(); return nil\<close>.
\<close>

type_synonym 'a call = "((go_error + 'a) outcome \<times> net_state) option"

record 'a json_type =
  zero :: 'a
  unmarshal :: "'a unmarshal"

definition validation_failure :: "string \<Rightarrow> net_state \<Rightarrow> 'a call" where
  "validation_failure message st = Some (Return (Inl (MailpitError (NewValidationError message))), st)"

definition request_then ::
  "world \<Rightarrow> client \<Rightarrow> string \<Rightarrow> string \<Rightarrow> string option
     \<Rightarrow> (http_Response option \<Rightarrow> (go_error + 'a) outcome) \<Rightarrow> net_state \<Rightarrow> 'a call" where
  "request_then w c meth endpoint body use st =
     (case makeRequest w c meth endpoint body st of
        None \<Rightarrow> None
      | Some ((resp, Some err), st') \<Rightarrow> Some (Return (Inl err), st')
      | Some ((resp, None), st') \<Rightarrow> Some (use resp, st'))"

definition decode_into :: "'a json_type \<Rightarrow> http_Response option \<Rightarrow> (go_error + 'a) outcome" where
  "decode_into T resp =
     (case parseResponse (unmarshal T) resp (Some (zero T)) of
        Panic p \<Rightarrow> Panic p
      | Return (Some err, result) \<Rightarrow> Return (Inl err)
      | Return (None, Some result) \<Rightarrow> Return (Inr result)
      | Return (None, None) \<Rightarrow> Return (Inr (zero T)))"

definition read_body :: "string \<Rightarrow> http_Response option \<Rightarrow> (go_error + string) outcome" where
  "read_body what resp =
     (case resp of
        None \<Rightarrow> Panic nil_dereference
      | Some r \<Rightarrow>
          (case ReadAll (resp_Body r) of
             (body, Some err) \<Rightarrow> Return (Inl (response_error what err))
           | (body, None) \<Rightarrow> Return (Inr body)))"

definition close_body :: "http_Response option \<Rightarrow> (go_error + unit) outcome" where
  "close_body resp = (case resp of None \<Rightarrow> Panic nil_dereference | Some r \<Rightarrow> Return (Inr ()))"


text \<open>
  \<open>json.NewEncoder(&body).Encode(v)\<close> for a value of type \<open>'r\<close> is given by the
  encoder of that type: the error, or the text written to the body.
\<close>

type_synonym 'r encoder = "'r \<Rightarrow> string + string"

definition encode_failure :: "string \<Rightarrow> string \<Rightarrow> net_state \<Rightarrow> 'a call" where
  "encode_failure message err st =
     Some (Return (Inl (MailpitError \<lparr>Cause = Some err, Type = ErrorTypeRequest,
       Message = message, Response = [], StatusCode = 0\<rparr>)), st)"

definition Join :: "string list \<Rightarrow> string \<Rightarrow> string" where
  "Join elems sep = (case elems of [] \<Rightarrow> [] | e # es \<Rightarrow> e @ concat (map (\<lambda>x. sep @ x) es))"

abbreviation MethodGet :: string where "MethodGet \<equiv> ''GET''"
abbreviation MethodHead :: string where "MethodHead \<equiv> ''HEAD''"
abbreviation MethodPost :: string where "MethodPost \<equiv> ''POST''"
abbreviation MethodPut :: string where "MethodPut \<equiv> ''PUT''"
abbreviation MethodDelete :: string where "MethodDelete \<equiv> ''DELETE''"

subsection \<open>Messages\<close>

definition ListMessages ::
  "world \<Rightarrow> 'a json_type \<Rightarrow> client \<Rightarrow> ListOptions option \<Rightarrow> net_state \<Rightarrow> 'a call" where
  "ListMessages w T c opts st =
     (let endpoint = ''/messages'';
          endpoint =
            (if opts \<noteq> None then
               (let params = ListOptions_ToURLValues opts in
                if length params > 0 then endpoint @ ''?'' @ Values_Encode params else endpoint)
             else endpoint)
      in request_then w c MethodGet endpoint None (decode_into T) st)"

definition GetMessage :: "world \<Rightarrow> 'a json_type \<Rightarrow> client \<Rightarrow> string \<Rightarrow> net_state \<Rightarrow> 'a call" where
  "GetMessage w T c id' st =
     (if id' = [] then validation_failure ''message ID cannot be empty'' st
      else request_then w c MethodGet (''/message/'' @ id') None (decode_into T) st)"

definition GetMessageSource :: "world \<Rightarrow> client \<Rightarrow> string \<Rightarrow> net_state \<Rightarrow> string call" where
  "GetMessageSource w c id' st =
     (if id' = [] then validation_failure ''message ID cannot be empty'' st
      else request_then w c MethodGet (''/messages/'' @ id' @ ''/source'') None
             (read_body ''failed to read message source: '') st)"

definition DeleteMessage :: "world \<Rightarrow> client \<Rightarrow> string \<Rightarrow> net_state \<Rightarrow> unit call" where
  "DeleteMessage w c id' st =
     (if id' = [] then validation_failure ''message ID cannot be empty'' st
      else request_then w c MethodDelete (''/messages/'' @ id') None close_body st)"

definition DeleteAllMessages :: "world \<Rightarrow> client \<Rightarrow> net_state \<Rightarrow> unit call" where
  "DeleteAllMessages w c st = request_then w c MethodDelete ''/messages'' None close_body st"

text \<open>
  \<open>SearchMessages\<close> ranges over the map of the options, in an order that Go does not
  fix; the model takes the order of the association list.
\<close>

definition SearchMessages ::
  "world \<Rightarrow> 'a json_type \<Rightarrow> client \<Rightarrow> string \<Rightarrow> SearchOptions option \<Rightarrow> net_state \<Rightarrow> 'a call" where
  "SearchMessages w T c query opts st =
     (if query = [] then validation_failure ''search query cannot be empty'' st
      else
        (let endpoint = ''/search'';
             params = [''query='' @ QueryEscape query];
             params =
               (if opts \<noteq> None then
                  params @ concat (map (\<lambda>(key, values). map (\<lambda>value. key @ ''='' @ value) values)
                                       (SearchOptions_ToURLValues opts))
                else params);
             endpoint =
               (if length params > 0 then endpoint @ ''?'' @ Join params ''&'' else endpoint)
         in request_then w c MethodGet endpoint None (decode_into T) st))"

definition GetMessageAttachment ::
  "world \<Rightarrow> client \<Rightarrow> string \<Rightarrow> string \<Rightarrow> net_state \<Rightarrow> string call" where
  "GetMessageAttachment w c messageID attachmentID st =
     (if messageID = [] then validation_failure ''message ID cannot be empty'' st
      else if attachmentID = [] then validation_failure ''attachment ID cannot be empty'' st
      else request_then w c MethodGet (''/messages/'' @ messageID @ ''/part/'' @ attachmentID) None
             (read_body ''failed to read attachment data: '') st)"

definition MarkMessageRead :: "world \<Rightarrow> client \<Rightarrow> string \<Rightarrow> net_state \<Rightarrow> unit call" where
  "MarkMessageRead w c id' st =
     (if id' = [] then validation_failure ''message ID cannot be empty'' st
      else request_then w c MethodPut (''/messages/'' @ id' @ ''/read'') None close_body st)"

definition MarkMessageUnread :: "world \<Rightarrow> client \<Rightarrow> string \<Rightarrow> net_state \<Rightarrow> unit call" where
  "MarkMessageUnread w c id' st =
     (if id' = [] then validation_failure ''message ID cannot be empty'' st
      else request_then w c MethodPut (''/messages/'' @ id' @ ''/unread'') None close_body st)"

definition GetMessageHeaders :: "world \<Rightarrow> 'a json_type \<Rightarrow> client \<Rightarrow> string \<Rightarrow> net_state \<Rightarrow> 'a call" where
  "GetMessageHeaders w T c id' st =
     (if id' = [] then validation_failure ''message ID cannot be empty'' st
      else request_then w c MethodGet (''/message/'' @ id' @ ''/headers'') None (decode_into T) st)"

definition GetMessageHTMLCheck :: "world \<Rightarrow> 'a json_type \<Rightarrow> client \<Rightarrow> string \<Rightarrow> net_state \<Rightarrow> 'a call" where
  "GetMessageHTMLCheck w T c id' st =
     (if id' = [] then validation_failure ''message ID cannot be empty'' st
      else request_then w c MethodGet (''/message/'' @ id' @ ''/html-check'') None (decode_into T) st)"

definition GetMessageLinkCheck :: "world \<Rightarrow> 'a json_type \<Rightarrow> client \<Rightarrow> string \<Rightarrow> net_state \<Rightarrow> 'a call" where
  "GetMessageLinkCheck w T c id' st =
     (if id' = [] then validation_failure ''message ID cannot be empty'' st
      else request_then w c MethodGet (''/message/'' @ id' @ ''/link-check'') None (decode_into T) st)"

definition GetMessageSpamAssassinCheck ::
  "world \<Rightarrow> 'a json_type \<Rightarrow> client \<Rightarrow> string \<Rightarrow> net_state \<Rightarrow> 'a call" where
  "GetMessageSpamAssassinCheck w T c id' st =
     (if id' = [] then validation_failure ''message ID cannot be empty'' st
      else request_then w c MethodGet (''/message/'' @ id' @ ''/sa-check'') None (decode_into T) st)"

definition GetMessagePart :: "world \<Rightarrow> client \<Rightarrow> string \<Rightarrow> string \<Rightarrow> net_state \<Rightarrow> string call" where
  "GetMessagePart w c messageID partID st =
     (if messageID = [] then validation_failure ''message ID cannot be empty'' st
      else if partID = [] then validation_failure ''part ID cannot be empty'' st
      else request_then w c MethodGet (''/message/'' @ messageID @ ''/part/'' @ partID) None
             (read_body ''failed to read message part data: '') st)"

definition GetMessagePartThumbnail ::
  "world \<Rightarrow> client \<Rightarrow> string \<Rightarrow> string \<Rightarrow> net_state \<Rightarrow> string call" where
  "GetMessagePartThumbnail w c messageID partID st =
     (if messageID = [] then validation_failure ''message ID cannot be empty'' st
      else if partID = [] then validation_failure ''part ID cannot be empty'' st
      else request_then w c MethodGet
             (''/message/'' @ messageID @ ''/part/'' @ partID @ ''/thumb'') None
             (read_body ''failed to read thumbnail data: '') st)"

definition ReleaseMessage ::
  "world \<Rightarrow> 'r encoder \<Rightarrow> client \<Rightarrow> string \<Rightarrow> 'r option \<Rightarrow> net_state \<Rightarrow> unit call" where
  "ReleaseMessage w enc c id' releaseData st =
     (if id' = [] then validation_failure ''message ID cannot be empty'' st
      else
        (case releaseData of
           None \<Rightarrow> validation_failure ''release data cannot be nil'' st
         | Some d \<Rightarrow>
             (case enc d of
                Inl err \<Rightarrow> encode_failure ''failed to encode release message request'' err st
              | Inr body \<Rightarrow>
                  request_then w c MethodPost (''/message/'' @ id' @ ''/release'') (Some body)
                    close_body st)))"

definition DeleteSearchResults :: "world \<Rightarrow> client \<Rightarrow> string \<Rightarrow> net_state \<Rightarrow> unit call" where
  "DeleteSearchResults w c query st =
     (if query = [] then validation_failure ''search query cannot be empty'' st
      else request_then w c MethodDelete (''/search?query='' @ QueryEscape query) None close_body st)"

subsection \<open>Views (views.go)\<close>

definition GetMessageHTML :: "world \<Rightarrow> client \<Rightarrow> string \<Rightarrow> net_state \<Rightarrow> string call" where
  "GetMessageHTML w c id' st =
     (if id' = [] then validation_failure ''message ID cannot be empty'' st
      else request_then w c MethodGet (''/view/'' @ id' @ ''.html'') None
             (read_body ''failed to read HTML content: '') st)"

definition GetMessageText :: "world \<Rightarrow> client \<Rightarrow> string \<Rightarrow> net_state \<Rightarrow> string call" where
  "GetMessageText w c id' st =
     (if id' = [] then validation_failure ''message ID cannot be empty'' st
      else request_then w c MethodGet (''/view/'' @ id' @ ''.txt'') None
             (read_body ''failed to read text content: '') st)"

definition GetMessageRaw :: "world \<Rightarrow> client \<Rightarrow> string \<Rightarrow> net_state \<Rightarrow> string call" where
  "GetMessageRaw w c id' st =
     (if id' = [] then validation_failure ''message ID cannot be empty'' st
      else request_then w c MethodGet (''/view/'' @ id' @ ''.raw'') None
             (read_body ''failed to read raw content: '') st)"

definition GetMessagePartHTML ::
  "world \<Rightarrow> client \<Rightarrow> string \<Rightarrow> string \<Rightarrow> net_state \<Rightarrow> string call" where
  "GetMessagePartHTML w c messageID partID st =
     (if messageID = [] then validation_failure ''message ID cannot be empty'' st
      else if partID = [] then validation_failure ''part ID cannot be empty'' st
      else request_then w c MethodGet
             (''/view/'' @ messageID @ ''/part/'' @ partID @ ''.html'') None
             (read_body ''failed to read part HTML content: '') st)"

definition GetMessagePartText ::
  "world \<Rightarrow> client \<Rightarrow> string \<Rightarrow> string \<Rightarrow> net_state \<Rightarrow> string call" where
  "GetMessagePartText w c messageID partID st =
     (if messageID = [] then validation_failure ''message ID cannot be empty'' st
      else if partID = [] then validation_failure ''part ID cannot be empty'' st
      else request_then w c MethodGet
             (''/view/'' @ messageID @ ''/part/'' @ partID @ ''.text'') None
             (read_body ''failed to read part text content: '') st)"

definition GetMessageEvents :: "world \<Rightarrow> 'a json_type \<Rightarrow> client \<Rightarrow> string \<Rightarrow> net_state \<Rightarrow> 'a call" where
  "GetMessageEvents w T c id' st =
     (if id' = [] then validation_failure ''message ID cannot be empty'' st
      else request_then w c MethodGet (''/message/'' @ id' @ ''/events'') None (decode_into T) st)"

subsection \<open>Tags (tags.go)\<close>

definition SetMessageTags ::
  "world \<Rightarrow> string list encoder \<Rightarrow> client \<Rightarrow> string \<Rightarrow> string list \<Rightarrow> net_state \<Rightarrow> unit call" where
  "SetMessageTags w enc c tag messageIDs st =
     (if tag = [] then validation_failure ''tag cannot be empty'' st
      else if length messageIDs = 0 then validation_failure ''message IDs cannot be empty'' st
      else
        (case enc messageIDs of
           Inl err \<Rightarrow> encode_failure ''failed to encode message IDs'' err st
         | Inr body \<Rightarrow> request_then w c MethodPut (''/tags/'' @ tag) (Some body) close_body st))"

definition DeleteTag :: "world \<Rightarrow> client \<Rightarrow> string \<Rightarrow> net_state \<Rightarrow> unit call" where
  "DeleteTag w c tag st =
     (if tag = [] then validation_failure ''tag cannot be empty'' st
      else request_then w c MethodDelete (''/tags/'' @ tag) None close_body st)"


section \<open>JSON (encoding/json)\<close>

text \<open>
  What \<open>json.Unmarshal\<close> does with a text: the scanner of the standard library decides
  whether the text is valid JSON, and the decoder then stores the value it holds into the
  target, by the type of the target. A number keeps its literal, as in the decoder, which
  converts it only when it is stored.
\<close>

datatype json =
    JNull
  | JBool bool
  | JNumber string
  | JString string
  | JArray "json list"
  | JObject "(string \<times> json) list"

datatype json_error = SyntaxError | UnmarshalTypeError string

subsection \<open>The text of a string literal\<close>

text \<open>
  A string literal is a sequence of bytes and of \<open>\u\<close> escapes. \<open>unquote\<close> encodes the
  escapes as UTF-8, a surrogate pair as one character and a lone surrogate as U+FFFD, and
  replaces every byte that does not belong to a valid UTF-8 sequence by U+FFFD.
\<close>

datatype string_unit = Byte char | CodeUnit nat

definition replacement_char :: string where
  "replacement_char = [CHR 0xEF, CHR 0xBF, CHR 0xBD]"

definition is_surrogate :: "nat \<Rightarrow> bool" where
  "is_surrogate r \<longleftrightarrow> 0xD800 \<le> r \<and> r < 0xE000"

definition EncodeRune :: "nat \<Rightarrow> string" where
  "EncodeRune r =
     (if r < 0x80 then [char_of r]
      else if r < 0x800 then [char_of (0xC0 + r div 64), char_of (0x80 + r mod 64)]
      else if is_surrogate r \<or> 0x10FFFF < r then replacement_char
      else if r < 0x10000 then
        [char_of (0xE0 + r div 4096), char_of (0x80 + r div 64 mod 64), char_of (0x80 + r mod 64)]
      else
        [char_of (0xF0 + r div 262144), char_of (0x80 + r div 4096 mod 64),
         char_of (0x80 + r div 64 mod 64), char_of (0x80 + r mod 64)])"

definition DecodeSurrogates :: "nat \<Rightarrow> nat \<Rightarrow> nat option" where
  "DecodeSurrogates r1 r2 =
     (if 0xD800 \<le> r1 \<and> r1 < 0xDC00 \<and> 0xDC00 \<le> r2 \<and> r2 < 0xE000
      then Some ((r1 - 0xD800) * 1024 + (r2 - 0xDC00) + 0x10000) else None)"

definition continuation :: "nat \<Rightarrow> nat \<Rightarrow> nat list \<Rightarrow> bool" where
  "continuation lo hi bs \<longleftrightarrow>
     (case bs of
        [] \<Rightarrow> False
      | b1 # rest \<Rightarrow> lo \<le> b1 \<and> b1 \<le> hi \<and> list_all (\<lambda>b. 0x80 \<le> b \<and> b \<le> 0xBF) rest)"

text \<open>The length of the valid UTF-8 sequence at the head of the bytes, or 0.\<close>

definition utf8_size :: "nat list \<Rightarrow> nat" where
  "utf8_size bs =
     (case bs of
        [] \<Rightarrow> 0
      | b0 # rest \<Rightarrow>
          if b0 < 0x80 then 1
          else if 0xC2 \<le> b0 \<and> b0 \<le> 0xDF then
            (if length rest \<ge> 1 \<and> continuation 0x80 0xBF (take 1 rest) then 2 else 0)
          else if 0xE0 \<le> b0 \<and> b0 \<le> 0xEF then
            (if length rest \<ge> 2 \<and>
                continuation (if b0 = 0xE0 then 0xA0 else 0x80) (if b0 = 0xED then 0x9F else 0xBF)
                  (take 2 rest)
             then 3 else 0)
          else if 0xF0 \<le> b0 \<and> b0 \<le> 0xF4 then
            (if length rest \<ge> 3 \<and>
                continuation (if b0 = 0xF0 then 0x90 else 0x80) (if b0 = 0xF4 then 0x8F else 0xBF)
                  (take 3 rest)
             then 4 else 0)
          else 0)"

fun raw_prefix :: "string_unit list \<Rightarrow> nat list" where
  "raw_prefix (Byte b # us) = of_char b # raw_prefix us"
| "raw_prefix us = []"

fun unquote :: "nat \<Rightarrow> string_unit list \<Rightarrow> string" where
  "unquote skip [] = []"
| "unquote skip (Byte b # us) =
     (if 0 < skip then b # unquote (skip - 1) us
      else
        (let n = utf8_size (of_char b # raw_prefix us) in
         if n = 0 then replacement_char @ unquote 0 us else b # unquote (n - 1) us))"
| "unquote skip (CodeUnit r1 # CodeUnit r2 # us) =
     (if is_surrogate r1 then
        (case DecodeSurrogates r1 r2 of
           Some r \<Rightarrow> EncodeRune r @ unquote 0 us
         | None \<Rightarrow> replacement_char @ unquote 0 (CodeUnit r2 # us))
      else EncodeRune r1 @ unquote 0 (CodeUnit r2 # us))"
| "unquote skip (CodeUnit r # us) = EncodeRune r @ unquote 0 us"

subsection \<open>The scanner\<close>

text \<open>
  The scanner reads one byte at a time. Its state is the step it is at, the stack of the
  arrays and objects that are open, each with what has been read of it, and the value at
  the top level once that is complete. Nesting deeper than 10000 is an error.
\<close>

datatype parse_frame =
    ParseObjectKey "(string \<times> json) list" "string option"
  | ParseObjectValue "(string \<times> json) list" string
  | ParseArrayValue "json list"

datatype scan_step =
    BeginValueOrEmpty
  | BeginValue
  | BeginStringOrEmpty
  | BeginString
  | EndValue
  | EndTop
  | InString "string_unit list"
  | InStringEsc "string_unit list"
  | InStringEscU "string_unit list" nat nat
  | Neg string
  | Zero string
  | Digits string
  | Dot string
  | Dot0 string
  | Exponent string
  | ExponentSign string
  | Exponent0 string
  | Literal string json

type_synonym scanner = "scan_step \<times> parse_frame list \<times> json option"

definition maxNestingDepth :: nat where
  "maxNestingDepth = 10000"

definition isSpace :: "char \<Rightarrow> bool" where
  "isSpace c \<longleftrightarrow> c = CHR '' '' \<or> c = CHR 0x09 \<or> c = CHR 0x0D \<or> c = CHR 0x0A"

definition is_digit :: "char \<Rightarrow> bool" where
  "is_digit c \<longleftrightarrow> between CHR ''0'' CHR ''9'' c"

fun complete :: "json \<Rightarrow> parse_frame list \<Rightarrow> scanner option" where
  "complete v [] = Some (EndTop, [], Some v)"
| "complete v (ParseArrayValue es # fs) = Some (EndValue, ParseArrayValue (es @ [v]) # fs, None)"
| "complete v (ParseObjectValue ms k # fs) =
     Some (EndValue, ParseObjectValue (ms @ [(k, v)]) k # fs, None)"
| "complete v (ParseObjectKey ms k # fs) = None"

fun end_string :: "string \<Rightarrow> parse_frame list \<Rightarrow> scanner option" where
  "end_string s (ParseObjectKey ms None # fs) = Some (EndValue, ParseObjectKey ms (Some s) # fs, None)"
| "end_string s fs = complete (JString s) fs"

fun stateEndValue :: "parse_frame list \<Rightarrow> json option \<Rightarrow> char \<Rightarrow> scanner option" where
  "stateEndValue [] res c = (if isSpace c then Some (EndTop, [], res) else None)"
| "stateEndValue (f # fs) res c =
     (if isSpace c then Some (EndValue, f # fs, res)
      else
        (case f of
           ParseObjectKey ms None \<Rightarrow> None
         | ParseObjectKey ms (Some k) \<Rightarrow>
             if c = CHR '':'' then Some (BeginValue, ParseObjectValue ms k # fs, res) else None
         | ParseObjectValue ms k \<Rightarrow>
             if c = CHR '','' then Some (BeginString, ParseObjectKey ms None # fs, res)
             else if c = CHR ''}'' then complete (JObject ms) fs
             else None
         | ParseArrayValue es \<Rightarrow>
             if c = CHR '','' then Some (BeginValue, f # fs, res)
             else if c = CHR '']'' then complete (JArray es) fs
             else None))"

definition end_number :: "string \<Rightarrow> parse_frame list \<Rightarrow> char \<Rightarrow> scanner option" where
  "end_number lit fs c =
     (case complete (JNumber lit) fs of
        None \<Rightarrow> None
      | Some (st, fs', res) \<Rightarrow> stateEndValue fs' res c)"

definition push :: "parse_frame \<Rightarrow> scan_step \<Rightarrow> parse_frame list \<Rightarrow> json option \<Rightarrow> scanner option" where
  "push f st fs res = (if length (f # fs) \<le> maxNestingDepth then Some (st, f # fs, res) else None)"

definition stateBeginValue :: "parse_frame list \<Rightarrow> json option \<Rightarrow> char \<Rightarrow> scanner option" where
  "stateBeginValue fs res c =
     (if c = CHR ''{'' then push (ParseObjectKey [] None) BeginStringOrEmpty fs res
      else if c = CHR ''['' then push (ParseArrayValue []) BeginValueOrEmpty fs res
      else if c = CHR 0x22 then Some (InString [], fs, res)
      else if c = CHR ''-'' then Some (Neg [c], fs, res)
      else if c = CHR ''0'' then Some (Zero [c], fs, res)
      else if c = CHR ''t'' then Some (Literal ''rue'' (JBool True), fs, res)
      else if c = CHR ''f'' then Some (Literal ''alse'' (JBool False), fs, res)
      else if c = CHR ''n'' then Some (Literal ''ull'' JNull, fs, res)
      else if between CHR ''1'' CHR ''9'' c then Some (Digits [c], fs, res)
      else None)"

definition escaped_byte :: "char \<Rightarrow> char option" where
  "escaped_byte c =
     (if c = CHR ''b'' then Some (CHR 0x08)
      else if c = CHR ''f'' then Some (CHR 0x0C)
      else if c = CHR ''n'' then Some (CHR 0x0A)
      else if c = CHR ''r'' then Some (CHR 0x0D)
      else if c = CHR ''t'' then Some (CHR 0x09)
      else if c = CHR 0x5C \<or> c = CHR ''/'' \<or> c = CHR 0x22 then Some c
      else None)"

fun scan :: "scanner \<Rightarrow> char \<Rightarrow> scanner option" where
  "scan (BeginValueOrEmpty, fs, res) c =
     (if isSpace c then Some (BeginValueOrEmpty, fs, res)
      else if c = CHR '']'' then stateEndValue fs res c
      else stateBeginValue fs res c)"
| "scan (BeginValue, fs, res) c =
     (if isSpace c then Some (BeginValue, fs, res) else stateBeginValue fs res c)"
| "scan (BeginStringOrEmpty, fs, res) c =
     (if isSpace c then Some (BeginStringOrEmpty, fs, res)
      else if c = CHR ''}'' then
        (case fs of ParseObjectKey ms None # fs' \<Rightarrow> complete (JObject ms) fs' | _ \<Rightarrow> None)
      else if c = CHR 0x22 then Some (InString [], fs, res)
      else None)"
| "scan (BeginString, fs, res) c =
     (if isSpace c then Some (BeginString, fs, res)
      else if c = CHR 0x22 then Some (InString [], fs, res)
      else None)"
| "scan (EndValue, fs, res) c = stateEndValue fs res c"
| "scan (EndTop, fs, res) c = (if isSpace c then Some (EndTop, fs, res) else None)"
| "scan (InString us, fs, res) c =
     (if c = CHR 0x22 then end_string (unquote 0 us) fs
      else if c = CHR 0x5C then Some (InStringEsc us, fs, res)
      else if (of_char c :: nat) < 0x20 then None
      else Some (InString (us @ [Byte c]), fs, res))"
| "scan (InStringEsc us, fs, res) c =
     (if c = CHR ''u'' then Some (InStringEscU us 0 0, fs, res)
      else
        (case escaped_byte c of
           Some b \<Rightarrow> Some (InString (us @ [Byte b]), fs, res)
         | None \<Rightarrow> None))"
| "scan (InStringEscU us r n, fs, res) c =
     (if ishex c then
        (if n = 3 then Some (InString (us @ [CodeUnit (r * 16 + unhex c)]), fs, res)
         else Some (InStringEscU us (r * 16 + unhex c) (Suc n), fs, res))
      else None)"
| "scan (Neg lit, fs, res) c =
     (if c = CHR ''0'' then Some (Zero (lit @ [c]), fs, res)
      else if between CHR ''1'' CHR ''9'' c then Some (Digits (lit @ [c]), fs, res)
      else None)"
| "scan (Digits lit, fs, res) c =
     (if is_digit c then Some (Digits (lit @ [c]), fs, res)
      else if c = CHR ''.'' then Some (Dot (lit @ [c]), fs, res)
      else if c = CHR ''e'' \<or> c = CHR ''E'' then Some (Exponent (lit @ [c]), fs, res)
      else end_number lit fs c)"
| "scan (Zero lit, fs, res) c =
     (if c = CHR ''.'' then Some (Dot (lit @ [c]), fs, res)
      else if c = CHR ''e'' \<or> c = CHR ''E'' then Some (Exponent (lit @ [c]), fs, res)
      else end_number lit fs c)"
| "scan (Dot lit, fs, res) c =
     (if is_digit c then Some (Dot0 (lit @ [c]), fs, res) else None)"
| "scan (Dot0 lit, fs, res) c =
     (if is_digit c then Some (Dot0 (lit @ [c]), fs, res)
      else if c = CHR ''e'' \<or> c = CHR ''E'' then Some (Exponent (lit @ [c]), fs, res)
      else end_number lit fs c)"
| "scan (Exponent lit, fs, res) c =
     (if c = CHR ''+'' \<or> c = CHR ''-'' then Some (ExponentSign (lit @ [c]), fs, res)
      else if is_digit c then Some (Exponent0 (lit @ [c]), fs, res)
      else None)"
| "scan (ExponentSign lit, fs, res) c =
     (if is_digit c then Some (Exponent0 (lit @ [c]), fs, res) else None)"
| "scan (Exponent0 lit, fs, res) c =
     (if is_digit c then Some (Exponent0 (lit @ [c]), fs, res) else end_number lit fs c)"
| "scan (Literal rest v, fs, res) c =
     (case rest of
        [] \<Rightarrow> None
      | r # rest' \<Rightarrow>
          if c \<noteq> r then None
          else if rest' = [] then complete v fs
          else Some (Literal rest' v, fs, res))"

fun scan_all :: "scanner \<Rightarrow> string \<Rightarrow> scanner option" where
  "scan_all sc [] = Some sc"
| "scan_all sc (c # data) = (case scan sc c of None \<Rightarrow> None | Some sc' \<Rightarrow> scan_all sc' data)"

text \<open>
  \<open>checkValid\<close>: at the end of the text the scanner is given one space, which ends a
  number; the text is valid when the value at the top level is then complete.
\<close>

definition json_parse :: "string \<Rightarrow> json option" where
  "json_parse data =
     (case scan_all (BeginValue, [], None) (data @ '' '') of
        Some (EndTop, [], Some v) \<Rightarrow> Some v
      | _ \<Rightarrow> None)"

subsection \<open>Decoding by the type of the target\<close>

text \<open>
  The decoder goes on after a value that does not fit its target and returns the first
  such error at the end, with the target as far as it was filled. \<open>null\<close> leaves a
  string, an integer and a struct as they are and makes a slice nil.
\<close>

definition first_error :: "json_error option \<Rightarrow> json_error option \<Rightarrow> json_error option" where
  "first_error e1 e2 = (case e1 of Some e \<Rightarrow> Some e | None \<Rightarrow> e2)"

definition value_kind :: "json \<Rightarrow> string" where
  "value_kind j =
     (case j of
        JNull \<Rightarrow> ''null''
      | JBool b \<Rightarrow> ''bool''
      | JNumber lit \<Rightarrow> ''number''
      | JString s \<Rightarrow> ''string''
      | JArray es \<Rightarrow> ''array''
      | JObject ms \<Rightarrow> ''object'')"

definition decode_string :: "json \<Rightarrow> string \<Rightarrow> json_error option \<times> string" where
  "decode_string j v =
     (case j of
        JNull \<Rightarrow> (None, v)
      | JString s \<Rightarrow> (None, s)
      | _ \<Rightarrow> (Some (UnmarshalTypeError (value_kind j)), v))"

text \<open>
  \<open>strconv.ParseInt(s, 10, 64)\<close> on the literal of a JSON number: the literal has to
  be an optional sign and digits, and the value has to fit 64 bits.
\<close>

definition digit_value :: "char \<Rightarrow> int" where
  "digit_value c = int (of_char c) - 48"

definition ParseInt :: "string \<Rightarrow> int option" where
  "ParseInt s =
     (let neg = (s \<noteq> [] \<and> hd s = CHR ''-'');
          ds = (if s \<noteq> [] \<and> (hd s = CHR ''-'' \<or> hd s = CHR ''+'') then tl s else s);
          n = foldl (\<lambda>acc c. acc * 10 + digit_value c) 0 ds;
          v = (if neg then - n else n)
      in if ds = [] \<or> \<not> list_all is_digit ds then None
         else if v < - (2 ^ 63) \<or> 2 ^ 63 - 1 < v then None
         else Some v)"

definition decode_int :: "json \<Rightarrow> int \<Rightarrow> json_error option \<times> int" where
  "decode_int j v =
     (case j of
        JNull \<Rightarrow> (None, v)
      | JNumber lit \<Rightarrow>
          (case ParseInt lit of
             Some n \<Rightarrow> (None, n)
           | None \<Rightarrow> (Some (UnmarshalTypeError (''number '' @ lit)), v))
      | _ \<Rightarrow> (Some (UnmarshalTypeError (value_kind j)), v))"

section \<open>Attachments and their flexible decoding\<close>

record Attachment =
  PartID :: string
  FileName :: string
  ContentType :: string
  Size :: int

text \<open>An \<open>AttachmentList\<close> is a slice of attachments, which may be nil.\<close>

type_synonym AttachmentList = "Attachment list option"

definition zero_Attachment :: Attachment where
  "zero_Attachment = \<lparr>PartID = [], FileName = [], ContentType = [], Size = 0\<rparr>"

text \<open>
  A key of an object names the field whose name it equals, or else the field whose name
  it equals when letters are folded: ASCII letters to upper case, and the two characters
  outside ASCII that fold to an ASCII letter (U+017F to S, U+212A to K).
\<close>

fun foldName :: "string \<Rightarrow> string" where
  "foldName [] = []"
| "foldName (c # s) =
     (if c = CHR 0xC5 \<and> take 1 s = [CHR 0xBF] then CHR ''S'' # foldName (tl s)
      else if c = CHR 0xE2 \<and> take 2 s = [CHR 0x84, CHR 0xAA] then CHR ''K'' # foldName (tl (tl s))
      else if between CHR ''a'' CHR ''z'' c then char_of (of_char c - (32::nat)) # foldName s
      else c # foldName s)"

definition struct_fields :: "string list" where
  "struct_fields = [''PartID'', ''FileName'', ''ContentType'', ''Size'']"

definition find_field :: "string list \<Rightarrow> string \<Rightarrow> string option" where
  "find_field names key =
     (if key \<in> set names then Some key
      else find (\<lambda>f. foldName f = foldName key) names)"

definition decode_Attachment_field ::
  "string \<Rightarrow> json \<Rightarrow> Attachment \<Rightarrow> json_error option \<times> Attachment" where
  "decode_Attachment_field f j a =
     (if f = ''PartID'' then (case decode_string j (PartID a) of (e, v) \<Rightarrow> (e, a\<lparr>PartID := v\<rparr>))
      else if f = ''FileName'' then
        (case decode_string j (FileName a) of (e, v) \<Rightarrow> (e, a\<lparr>FileName := v\<rparr>))
      else if f = ''ContentType'' then
        (case decode_string j (ContentType a) of (e, v) \<Rightarrow> (e, a\<lparr>ContentType := v\<rparr>))
      else (case decode_int j (Size a) of (e, v) \<Rightarrow> (e, a\<lparr>Size := v\<rparr>)))"

fun decode_members ::
  "(string \<times> json) list \<Rightarrow> Attachment \<Rightarrow> json_error option \<times> Attachment" where
  "decode_members [] a = (None, a)"
| "decode_members ((key, j) # ms) a =
     (case find_field struct_fields key of
        None \<Rightarrow> decode_members ms a
      | Some f \<Rightarrow>
          (case decode_Attachment_field f j a of
             (e, a') \<Rightarrow> (case decode_members ms a' of (e', a'') \<Rightarrow> (first_error e e', a''))))"

definition decode_Attachment :: "json \<Rightarrow> Attachment \<Rightarrow> json_error option \<times> Attachment" where
  "decode_Attachment j a =
     (case j of
        JNull \<Rightarrow> (None, a)
      | JObject ms \<Rightarrow> decode_members ms a
      | _ \<Rightarrow> (Some (UnmarshalTypeError (value_kind j)), a))"

fun decode_elements :: "json list \<Rightarrow> json_error option \<times> Attachment list" where
  "decode_elements [] = (None, [])"
| "decode_elements (j # js) =
     (case decode_Attachment j zero_Attachment of
        (e, a) \<Rightarrow> (case decode_elements js of (e', as) \<Rightarrow> (first_error e e', a # as)))"

definition decode_Attachments ::
  "json \<Rightarrow> AttachmentList \<Rightarrow> json_error option \<times> AttachmentList" where
  "decode_Attachments j v =
     (case j of
        JNull \<Rightarrow> (None, None)
      | JArray es \<Rightarrow> (case decode_elements es of (e, as) \<Rightarrow> (e, Some as))
      | _ \<Rightarrow> (Some (UnmarshalTypeError (value_kind j)), v))"

text \<open>
  \<open>json.Unmarshal(data, &v)\<close> for a target with the decoder \<open>dec\<close>: the text is checked
  first, and nothing is decoded from a text that is not valid.
\<close>

definition json_Unmarshal ::
  "(json \<Rightarrow> 'a \<Rightarrow> json_error option \<times> 'a) \<Rightarrow> string \<Rightarrow> 'a \<Rightarrow> json_error option \<times> 'a" where
  "json_Unmarshal dec data v =
     (case json_parse data of None \<Rightarrow> (Some SyntaxError, v) | Some j \<Rightarrow> dec j v)"

definition UnmarshalJSON :: "string \<Rightarrow> AttachmentList \<Rightarrow> json_error option \<times> AttachmentList" where
  "UnmarshalJSON data al =
     (case json_Unmarshal decode_Attachments data None of
        (None, attachments) \<Rightarrow> (None, attachments)
      | (Some err, attachments) \<Rightarrow>
          (case json_Unmarshal decode_int data 0 of
             (None, num) \<Rightarrow> (None, Some [])
           | (Some err', num) \<Rightarrow> (None, Some [])))"

text \<open>
  Decoding into an \<open>AttachmentList\<close>, as a variable or as a field of a message:
  \<open>json.Unmarshal\<close> checks the text and hands the value to the method of the type.
\<close>

definition Unmarshal_AttachmentList ::
  "string \<Rightarrow> AttachmentList \<Rightarrow> json_error option \<times> AttachmentList" where
  "Unmarshal_AttachmentList data al =
     (case json_parse data of None \<Rightarrow> (Some SyntaxError, al) | Some j \<Rightarrow> UnmarshalJSON data al)"

text \<open>
  The object that holds an attachment, with the fields under their own names, and the sizes
  that an \<open>int\<close> of 64 bits holds.
\<close>

definition attachment_object :: "Attachment \<Rightarrow> json" where
  "attachment_object a =
     JObject [(''PartID'', JString (PartID a)), (''FileName'', JString (FileName a)),
              (''ContentType'', JString (ContentType a)), (''Size'', JNumber (Itoa (Size a)))]"

definition fits_int :: "int \<Rightarrow> bool" where
  "fits_int n \<longleftrightarrow> - (2 ^ 63) \<le> n \<and> n \<le> 2 ^ 63 - 1"

section \<open>Example transports and clients\<close>

text \<open>
  The fake transports of the scenarios that the properties below are run on: one that
  fails twice and then answers 200, one that always answers 404, one that answers 429
  twice and then 200, and one whose first call fails while the context is cancelled
  during the wait that follows.
\<close>

definition response :: "int \<Rightarrow> string \<Rightarrow> http_Response" where
  "response status text =
     \<lparr>resp_StatusCode = status, resp_Body = \<lparr>body_data = text, body_error = None\<rparr>\<rparr>"

definition fails_twice :: world where
  "fails_twice =
     \<lparr>new_request_error = (\<lambda>meth u. None),
      round_trip = (\<lambda>n req. if n < 2 then Inl ''connection refused'' else Inr (response 200 ''{}'')),
      ctx_done = (\<lambda>n. None)\<rparr>"

definition always_404 :: world where
  "always_404 =
     \<lparr>new_request_error = (\<lambda>meth u. None),
      round_trip = (\<lambda>n req. Inr (response 404 ''not found'')),
      ctx_done = (\<lambda>n. None)\<rparr>"

definition rate_limited_twice :: world where
  "rate_limited_twice =
     \<lparr>new_request_error = (\<lambda>meth u. None),
      round_trip = (\<lambda>n req. if n < 2 then Inr (response 429 ''slow down'') else Inr (response 200 ''{}'')),
      ctx_done = (\<lambda>n. None)\<rparr>"

definition cancelled_while_waiting :: world where
  "cancelled_while_waiting =
     \<lparr>new_request_error = (\<lambda>meth u. None),
      round_trip = (\<lambda>n req. Inl ''context canceled''),
      ctx_done = (\<lambda>n. Some Canceled)\<rparr>"

definition example_client :: client where
  "example_client =
     \<lparr>config = DefaultConfig,
      baseURL = empty_URL\<lparr>Scheme := ''http'', Host := ''localhost:8025''\<rparr>,
      apiURL = ''http://localhost:8025/api/v1'',
      userAgent = ''mailpit-go-client/1.0.0''\<rparr>"

definition relative_config :: Config where
  "relative_config = DefaultConfig\<lparr>BaseURL := ''localhost''\<rparr>"

definition relative_client :: client where
  "relative_client =
     \<lparr>config = relative_config,
      baseURL = empty_URL\<lparr>Path := ''localhost''\<rparr>,
      apiURL = ''localhost/api/v1'',
      userAgent = ''mailpit-go-client/1.0.0''\<rparr>"

definition negative_retries_client :: client where
  "negative_retries_client = example_client\<lparr>config := DefaultConfig\<lparr>MaxRetries := - 1\<rparr>\<rparr>"

definition fresh :: net_state where
  "fresh = \<lparr>log = [], waited = 0\<rparr>"

text \<open>Options as the tests of the repository set them.\<close>

definition all_fields :: ListOptions where
  "all_fields =
     \<lparr>Query = ''test query'', ListOptions.Tag = ''important'', ListOptions.Sort = ''date'',
      ListOptions.Start = 10, ListOptions.Limit = 25\<rparr>"

definition only_start :: ListOptions where
  "only_start =
     \<lparr>Query = [], ListOptions.Tag = [], ListOptions.Sort = [],
      ListOptions.Start = 10, ListOptions.Limit = 0\<rparr>"

definition unset_fields :: ListOptions where
  "unset_fields =
     \<lparr>Query = [], ListOptions.Tag = [], ListOptions.Sort = [],
      ListOptions.Start = 0, ListOptions.Limit = - 1\<rparr>"

definition only_limit :: SearchOptions where
  "only_limit = \<lparr>Tag = [], Sort = [], Start = 0, Limit = 5\<rparr>"

definition unset_search_fields :: SearchOptions where
  "unset_search_fields = \<lparr>Tag = [], Sort = [], Start = 0, Limit = 0\<rparr>"

text \<open>A decoder that accepts nothing, and one that keeps the text it is given.\<close>

definition reject_all :: "unit unmarshal" where
  "reject_all data t = (Some ''invalid character'', t)"

definition keep_text :: "string json_type" where
  "keep_text = \<lparr>zero = [], unmarshal = (\<lambda>data t. (None, data))\<rparr>"

definition is_network_error :: "go_error \<Rightarrow> bool" where
  "is_network_error err =
     (case err of MailpitError e \<Rightarrow> Type e = ErrorTypeNetwork | ContextError e \<Rightarrow> False)"


text \<open>
  A call is rejected without a request when it returns an error of the validation class
  and leaves the state of the network as it found it: the transport was not invoked
  and no delay was waited out.
\<close>

definition rejected_without_request :: "'a call \<Rightarrow> net_state \<Rightarrow> bool" where
  "rejected_without_request r st \<longleftrightarrow>
     (\<exists>e. r = Some (Return (Inl (MailpitError e)), st) \<and> Type e = ErrorTypeValidation)"


text \<open>Texts of attachment lists, as the server sends them.\<close>

definition two_attachments :: "Attachment list" where
  "two_attachments =
     [\<lparr>PartID = ''1'', FileName = ''document.pdf'', ContentType = ''application/pdf'', Size = 1024\<rparr>,
      \<lparr>PartID = ''2'', FileName = ''image.jpg'', ContentType = ''image/jpeg'', Size = 2048\<rparr>]"

definition two_attachments_text :: string where
  \<open>two_attachments_text =
     ''[ {"PartID": "1", "FileName": "document.pdf", "ContentType": "application/pdf", "Size": 1024},'' @
     '' {"PartID": "2", "FileName": "image.jpg", "ContentType": "image/jpeg", "Size": 2048} ]''\<close>

definition object_text :: string where
  \<open>object_text = ''{"count": 0}''\<close>

definition string_text :: string where
  \<open>string_text = ''"none"''\<close>

section \<open>Verification: the retry loop\<close>

lemma sint_succ: 
  fixes a M :: "64 word"
  assumes "sint a < sint M"
  shows "sint (a + 1) = sint a + 1"
proof -
  have "sint M < 2 ^ 63" using sint_lt[of M] by simp
  moreover have "- (2 ^ 63) \<le> sint a" using sint_ge[of a] by simp
  ultimately have "signed_take_bit 63 (sint a + 1) = sint a + 1"
    using assms by (intro signed_take_bit_int_eq_self) auto
  then show ?thesis by (simp add: sint_word_ariths)
qed

lemma sint_of_nat_64:
  fixes M :: "64 word"
  assumes "int n \<le> sint M"
  shows "sint (of_nat n :: 64 word) = int n"
proof -
  have "sint M < 2 ^ 63" using sint_lt[of M] by simp
  then have "signed_take_bit 63 (int n) = int n"
    using assms by (intro signed_take_bit_int_eq_self) auto
  then show ?thesis by (simp add: signed_of_nat)
qed

lemma loop_step_retried:
  assumes ok: "new_request_error w meth u = None"
    and le: "a \<le>s MaxRetries (config c)"
    and sel: "0 <s a \<Longrightarrow> ctx_done w (waited st) = None"
    and out: "retried (round_trip w (length (log st)) (build_request c meth u body))"
  shows "makeRequest_loop w c meth u body a lastErr st =
         makeRequest_loop w c meth u body (a + 1)
           (Some (error_of (round_trip w (length (log st)) (build_request c meth u body))))
           \<lparr>log = log st @ [round_trip w (length (log st)) (build_request c meth u body)],
               waited = (if 0 <s a then Suc (waited st) else waited st)\<rparr>"
  using assms
  apply (subst makeRequest_loop.simps)
  apply (cases st)
  apply (auto simp: select_retry_delay_def NewRequestWithContext_def Do_def Let_def build_request_def
      retried_def error_of_def split: sum.splits)
  done

lemma loop_retries:
  assumes ok: "new_request_error w meth u = None"
    and pos: "0 <s a"
    and bound: "sint a + int n \<le> sint (MaxRetries (config c)) + 1"
    and sel: "\<forall>j<n. ctx_done w (waited st + j) = None"
    and out: "\<forall>i<n. retried (round_trip w (length (log st) + i) (build_request c meth u body))"
  shows "makeRequest_loop w c meth u body a lastErr st =
         makeRequest_loop w c meth u body (a + of_nat n)
           (last_error lastErr (attempt_outcomes w (build_request c meth u body) (length (log st)) n))
           \<lparr>log = log st @ attempt_outcomes w (build_request c meth u body) (length (log st)) n,
            waited = waited st + n\<rparr>"
  using pos bound sel out
proof (induction n arbitrary: a lastErr st)
  case 0
  then show ?case by (cases st) (simp add: attempt_outcomes_def last_error_def)
next
  case (Suc n)
  let ?req = "build_request c meth u body"
  let ?o = "round_trip w (length (log st)) ?req"
  let ?st = "\<lparr>log = log st @ [?o], waited = Suc (waited st)\<rparr>"
  have a_le: "a \<le>s MaxRetries (config c)"
    using Suc.prems(2) by (simp add: word_sle_eq)
  have sel0: "ctx_done w (waited st) = None"
    using Suc.prems(3) by (metis add.right_neutral zero_less_Suc)
  have out0: "retried ?o"
    using Suc.prems(4) by (metis add.right_neutral zero_less_Suc)
  have step: "makeRequest_loop w c meth u body a lastErr st =
      makeRequest_loop w c meth u body (a + 1) (Some (error_of ?o)) ?st"
    using loop_step_retried[OF ok a_le sel0 out0, of lastErr] Suc.prems(1) by simp
  show ?case
  proof (cases n)
    case 0
    then show ?thesis using step by (simp add: attempt_outcomes_def last_error_def)
  next
    case (Suc m)
    have lt: "sint a < sint (MaxRetries (config c))"
      using Suc.prems(2) Suc by simp
    have s1: "sint (a + 1) = sint a + 1" by (rule sint_succ[OF lt])
    have pos1: "0 <s a + 1" using Suc.prems(1) s1 by (simp add: word_sless_alt)
    have b1: "sint (a + 1) + int n \<le> sint (MaxRetries (config c)) + 1"
      using Suc.prems(2) s1 by simp
    have sel1: "\<forall>j<n. ctx_done w (waited ?st + j) = None"
      using Suc.prems(3) by (auto simp: less_Suc_eq_0_disj)
    have out1: "\<forall>i<n. retried (round_trip w (length (log ?st) + i) ?req)"
      using Suc.prems(4) by (auto simp: less_Suc_eq_0_disj)
    have outs_eq: "attempt_outcomes w ?req (length (log st)) (Suc n) = ?o # attempt_outcomes w ?req (Suc (length (log st))) n"
      by (simp add: attempt_outcomes_def upt_conv_Cons map_Suc_upt[symmetric] del: upt_Suc)
    have "makeRequest_loop w c meth u body (a + 1) (Some (error_of ?o)) ?st =
         makeRequest_loop w c meth u body (a + 1 + of_nat n)
           (last_error (Some (error_of ?o)) (attempt_outcomes w ?req (length (log ?st)) n))
           \<lparr>log = log ?st @ attempt_outcomes w ?req (length (log ?st)) n, waited = waited ?st + n\<rparr>"
      by (rule Suc.IH[OF pos1 b1 sel1 out1])
    then show ?thesis
      using step by (simp add: outs_eq last_error_def add.assoc)
  qed
qed


lemma loop_xor_aux:
  assumes "makeRequest_loop w c meth u body a lastErr st = Some y"
  shows "(a \<le>s MaxRetries (config c) \<or> lastErr \<noteq> None) \<longrightarrow>
         (fst (fst y) = None) \<noteq> (snd (fst y) = None)"
  using assms
proof (induction rule: makeRequest_loop.raw_induct[rotated, consumes 1])
  case (1 f w c meth u body a lastErr st y)
  then show ?case
    by (auto simp: select_retry_delay_def split: if_splits option.splits sum.splits prod.splits)
qed

lemma sint_succ_max:
  fixes a :: "64 word"
  assumes "a \<le>s M" "M \<noteq> 2 ^ 63 - 1"
  shows "sint (a + 1) = sint a + 1"
proof -
  have "sint M \<noteq> 2 ^ 63 - 1"
  proof
    assume "sint M = 2 ^ 63 - 1"
    then have "word_of_int (sint M) = (word_of_int (2 ^ 63 - 1) :: 64 word)" by simp
    then show False using assms(2) by simp
  qed
  moreover have "sint M < 2 ^ 63" using sint_lt[of M] by simp
  ultimately have "sint M < 2 ^ 63 - 1" by simp
  then have "sint a < 2 ^ 63 - 1" using assms(1) by (simp add: word_sle_eq)
  moreover have "- (2 ^ 63) \<le> sint a" using sint_ge[of a] by simp
  ultimately have "signed_take_bit 63 (sint a + 1) = sint a + 1"
    by (intro signed_take_bit_int_eq_self) auto
  then show ?thesis by (simp add: sint_word_ariths)
qed

lemma loop_returns:
  assumes M: "MaxRetries (config c) \<noteq> 2 ^ 63 - 1"
  shows "\<exists>y. makeRequest_loop w c meth u body a lastErr st = Some y"
proof (induction "nat (sint (MaxRetries (config c)) + 1 - sint a)" arbitrary: a lastErr st rule: less_induct)
  case less
  show ?case
  proof (cases "a \<le>s MaxRetries (config c)")
    case False
    then show ?thesis by (subst makeRequest_loop.simps) simp
  next
    case True
    have s: "sint (a + 1) = sint a + 1" by (rule sint_succ_max[OF True M])
    have "nat (sint (MaxRetries (config c)) + 1 - sint (a + 1)) < nat (sint (MaxRetries (config c)) + 1 - sint a)"
      using True s by (simp add: word_sle_eq)
    then have IH: "\<And>e s. \<exists>y. makeRequest_loop w c meth u body (a + 1) e s = Some y"
      using less by blast
    show ?thesis
      apply (subst makeRequest_loop.simps)
      using IH by (auto split: prod.splits option.splits sum.splits)
  qed
qed


lemma outs_Suc: "attempt_outcomes w req n0 (Suc n) = round_trip w n0 req # attempt_outcomes w req (Suc n0) n"
  by (simp add: attempt_outcomes_def upt_conv_Cons map_Suc_upt[symmetric] del: upt_Suc)

lemma makeRequest_retries:
  assumes ok: "new_request_error w meth (apiURL c @ endpoint) = None"
    and bound: "int k \<le> sint (MaxRetries (config c)) + 1"
    and out: "\<forall>i<k. retried (round_trip w (length (log st) + i)
                 (build_request c meth (apiURL c @ endpoint) body))"
    and sel: "\<forall>j. Suc j < k \<longrightarrow> ctx_done w (waited st + j) = None"
  shows "makeRequest w c meth endpoint body st =
         makeRequest_loop w c meth (apiURL c @ endpoint) body (of_nat k)
           (last_error None (attempt_outcomes w (build_request c meth (apiURL c @ endpoint) body) (length (log st)) k))
           \<lparr>log = log st @ attempt_outcomes w (build_request c meth (apiURL c @ endpoint) body) (length (log st)) k,
            waited = waited st + (k - 1)\<rparr>"
proof (cases k)
  case 0
  then show ?thesis by (cases st) (simp add: makeRequest_def attempt_outcomes_def last_error_def)
next
  case (Suc n)
  let ?u = "apiURL c @ endpoint"
  let ?req = "build_request c meth ?u body"
  let ?o = "round_trip w (length (log st)) ?req"
  let ?st = "\<lparr>log = log st @ [?o], waited = waited st\<rparr>"
  have le0: "(0::64 word) \<le>s MaxRetries (config c)"
    using bound Suc by (simp add: word_sle_eq)
  have out0: "retried ?o" using out Suc by (metis add.right_neutral zero_less_Suc)
  have step: "makeRequest_loop w c meth ?u body 0 None st =
      makeRequest_loop w c meth ?u body (0 + 1) (Some (error_of ?o)) ?st"
    using loop_step_retried[OF ok le0 _ out0, of None] by simp
  have b1: "sint (1::64 word) + int n \<le> sint (MaxRetries (config c)) + 1"
    using bound Suc by simp
  have sel1: "\<forall>j<n. ctx_done w (waited ?st + j) = None"
    using sel Suc by simp
  have out1: "\<forall>i<n. retried (round_trip w (length (log ?st) + i) ?req)"
    using out Suc by (auto simp: less_Suc_eq_0_disj)
  have "makeRequest_loop w c meth ?u body 1 (Some (error_of ?o)) ?st =
         makeRequest_loop w c meth ?u body (1 + of_nat n)
           (last_error (Some (error_of ?o)) (attempt_outcomes w ?req (length (log ?st)) n))
           \<lparr>log = log ?st @ attempt_outcomes w ?req (length (log ?st)) n, waited = waited ?st + n\<rparr>"
    by (rule loop_retries[OF ok _ b1 sel1 out1]) (simp add: word_sless_alt)
  then show ?thesis
    using step Suc by (simp add: makeRequest_def outs_Suc last_error_def)
qed

lemma of_nat_sle:
  assumes "int k \<le> sint (M :: 64 word)"
  shows "(of_nat k :: 64 word) \<le>s M"
  using assms sint_of_nat_64[OF assms] by (simp add: word_sle_eq)

lemma of_nat_spos:
  assumes "int k \<le> sint (M :: 64 word)"
  shows "0 <s (of_nat k :: 64 word) \<longleftrightarrow> 0 < k"
  using sint_of_nat_64[OF assms] by (simp add: word_sless_alt)

lemma loop_final_attempt:
  assumes ok: "new_request_error w meth u = None"
    and le: "a \<le>s MaxRetries (config c)"
    and sel: "0 <s a \<Longrightarrow> ctx_done w (waited st) = None"
    and out: "round_trip w (length (log st)) (build_request c meth u body) = Inr resp"
  shows "200 \<le> resp_StatusCode resp \<and> resp_StatusCode resp < 300 \<Longrightarrow>
           makeRequest_loop w c meth u body a lastErr st =
           Some ((Some resp, None),
             \<lparr>log = log st @ [Inr resp], waited = (if 0 <s a then Suc (waited st) else waited st)\<rparr>)"
    and "400 \<le> resp_StatusCode resp \<and> resp_StatusCode resp < 500 \<and> resp_StatusCode resp \<noteq> 429 \<Longrightarrow>
           makeRequest_loop w c meth u body a lastErr st =
           Some ((None, Some (api_error resp)),
             \<lparr>log = log st @ [Inr resp], waited = (if 0 <s a then Suc (waited st) else waited st)\<rparr>)"
  using assms
  by (subst makeRequest_loop.simps, cases st,
      auto simp: select_retry_delay_def NewRequestWithContext_def Do_def Let_def build_request_def)+

lemma loop_cancelled:
  assumes le: "a \<le>s MaxRetries (config c)"
    and pos: "0 <s a"
    and sel: "ctx_done w (waited st) = Some e"
  shows "makeRequest_loop w c meth u body a lastErr st =
           Some ((None, Some (ContextError e)), \<lparr>log = log st, waited = Suc (waited st)\<rparr>)"
  using assms
  by (subst makeRequest_loop.simps, cases st) (auto simp: select_retry_delay_def)


lemma retried_Inl: "retried (Inl err)" by (simp add: retried_def)
lemma retried_5xx: "500 \<le> resp_StatusCode r \<or> resp_StatusCode r = 429 \<Longrightarrow> retried (Inr r)"
  by (auto simp: retried_def)

lemma length_attempt_outcomes: "length (attempt_outcomes w req n0 n) = n"
  by (simp add: attempt_outcomes_def)

lemma makeRequest_final_response:
  assumes ok: "new_request_error w meth (apiURL c @ endpoint) = None"
    and bound: "int k \<le> sint (MaxRetries (config c))"
    and hist: "\<forall>i<k. retried (round_trip w (length (log st) + i)
                 (build_request c meth (apiURL c @ endpoint) body))"
    and sel: "\<forall>j<k. ctx_done w (waited st + j) = None"
    and out: "round_trip w (length (log st) + k)
                 (build_request c meth (apiURL c @ endpoint) body) = Inr resp"
  shows "200 \<le> resp_StatusCode resp \<and> resp_StatusCode resp < 300 \<Longrightarrow>
           makeRequest w c meth endpoint body st =
           Some ((Some resp, None),
             \<lparr>log = log st @ attempt_outcomes w (build_request c meth (apiURL c @ endpoint) body)
                               (length (log st)) k @ [Inr resp],
              waited = waited st + k\<rparr>)"
    and "400 \<le> resp_StatusCode resp \<and> resp_StatusCode resp < 500 \<and> resp_StatusCode resp \<noteq> 429 \<Longrightarrow>
           makeRequest w c meth endpoint body st =
           Some ((None, Some (api_error resp)),
             \<lparr>log = log st @ attempt_outcomes w (build_request c meth (apiURL c @ endpoint) body)
                               (length (log st)) k @ [Inr resp],
              waited = waited st + k\<rparr>)"
proof -
  let ?u = "apiURL c @ endpoint"
  let ?req = "build_request c meth ?u body"
  let ?st = "\<lparr>log = log st @ attempt_outcomes w ?req (length (log st)) k,
              waited = waited st + (k - 1)\<rparr>"
  have b1: "int k \<le> sint (MaxRetries (config c)) + 1" using bound by simp
  have sel1: "\<forall>j. Suc j < k \<longrightarrow> ctx_done w (waited st + j) = None" using sel by simp
  have run: "makeRequest w c meth endpoint body st =
      makeRequest_loop w c meth ?u body (of_nat k)
        (last_error None (attempt_outcomes w ?req (length (log st)) k)) ?st"
    by (rule makeRequest_retries[OF ok b1 hist sel1])
  have le: "(of_nat k :: 64 word) \<le>s MaxRetries (config c)" by (rule of_nat_sle[OF bound])
  have pos: "0 <s (of_nat k :: 64 word) \<longleftrightarrow> 0 < k" by (rule of_nat_spos[OF bound])
  have sel2: "0 <s (of_nat k :: 64 word) \<Longrightarrow> ctx_done w (waited ?st) = None"
    using sel pos by (cases k) auto
  have out2: "round_trip w (length (log ?st)) ?req = Inr resp"
    using out by (simp add: length_attempt_outcomes)
  have w: "(if 0 <s (of_nat k :: 64 word) then Suc (waited ?st) else waited ?st) = waited st + k"
    using pos by (cases k) auto
  show "200 \<le> resp_StatusCode resp \<and> resp_StatusCode resp < 300 \<Longrightarrow>
           makeRequest w c meth endpoint body st =
           Some ((Some resp, None),
             \<lparr>log = log st @ attempt_outcomes w ?req (length (log st)) k @ [Inr resp],
              waited = waited st + k\<rparr>)"
    using loop_final_attempt(1)[OF ok le sel2 out2] run w by simp
  show "400 \<le> resp_StatusCode resp \<and> resp_StatusCode resp < 500 \<and> resp_StatusCode resp \<noteq> 429 \<Longrightarrow>
           makeRequest w c meth endpoint body st =
           Some ((None, Some (api_error resp)),
             \<lparr>log = log st @ attempt_outcomes w ?req (length (log st)) k @ [Inr resp],
              waited = waited st + k\<rparr>)"
    using loop_final_attempt(2)[OF ok le sel2 out2] run w by simp
qed


text \<open>
  Claim C1. Let the request be one that can be built, let the transport fail on each of
  the first \<open>k\<close> attempts of a call, \<open>k \<le> MaxRetries\<close>, let no wait between them be
  cut short by the context, and let attempt \<open>k + 1\<close> get a response with a status in
  [200, 300). Then \<open>makeRequest\<close> returns that response with a nil error; the transport
  has been invoked exactly \<open>k + 1\<close> times, and the response is the last entry of the
  log: no attempt follows it. With \<open>MaxRetries = 3\<close> and a transport that fails twice
  and then succeeds this is success after exactly 3 invocations.
\<close>

theorem makeRequest_retry_then_success:
  assumes "new_request_error w meth (apiURL c @ endpoint) = None"
    and "int k \<le> sint (MaxRetries (config c))"
    and "\<forall>i<k. \<exists>err. round_trip w (length (log st) + i)
                 (build_request c meth (apiURL c @ endpoint) body) = Inl err"
    and "\<forall>j<k. ctx_done w (waited st + j) = None"
    and "round_trip w (length (log st) + k)
           (build_request c meth (apiURL c @ endpoint) body) = Inr resp"
    and "200 \<le> resp_StatusCode resp" and "resp_StatusCode resp < 300"
  shows "\<exists>st'. makeRequest w c meth endpoint body st = Some ((Some resp, None), st')
           \<and> length (log st') = length (log st) + (k + 1)
           \<and> last (log st') = Inr resp
           \<and> waited st' = waited st + k"
proof -
  have hist: "\<forall>i<k. retried (round_trip w (length (log st) + i)
                 (build_request c meth (apiURL c @ endpoint) body))"
    using assms(3) by (metis retried_Inl)
  show ?thesis
    using makeRequest_final_response(1)[OF assms(1,2) hist assms(4,5)] assms(6,7)
    by (simp add: length_attempt_outcomes)
qed

theorem makeRequest_retry_then_success_witness:
  "\<exists>st'. makeRequest fails_twice example_client MethodGet ''/messages'' None fresh =
            Some ((Some (response 200 ''{}''), None), st')
         \<and> length (log st') = 3 \<and> last (log st') = Inr (response 200 ''{}'')"
  using makeRequest_retry_then_success[where w = fails_twice
          and meth = MethodGet and c = example_client and endpoint = "''/messages''" and k = 2
          and st = fresh and body = None and resp = "response 200 ''{}''"]
  by (auto simp: fails_twice_def example_client_def DefaultConfig_def fresh_def response_def)

text \<open>
  Claim C2. After \<open>k \<le> MaxRetries\<close> attempts that each ended in a transport error or
  in a response with status \<open>\<ge> 500\<close> or 429, the loop has gone on to attempt \<open>k + 1\<close>,
  and the response of that attempt decides: a status in [400, 500) other than 429 ends
  the call at once with an API error that carries the status code and the body as read,
  a status in [200, 300) ends it with the response; either way after exactly \<open>k + 1\<close>
  invocations. A transport that always answers 404 is asked once; one that answers 429
  twice and then 200 yields success after exactly 3 attempts.
\<close>

theorem makeRequest_client_error_not_retried:
  assumes "new_request_error w meth (apiURL c @ endpoint) = None"
    and "int k \<le> sint (MaxRetries (config c))"
    and "\<forall>i<k. (\<exists>err. round_trip w (length (log st) + i)
                   (build_request c meth (apiURL c @ endpoint) body) = Inl err) \<or>
               (\<exists>r. round_trip w (length (log st) + i)
                   (build_request c meth (apiURL c @ endpoint) body) = Inr r \<and>
                    (500 \<le> resp_StatusCode r \<or> resp_StatusCode r = 429))"
    and "\<forall>j<k. ctx_done w (waited st + j) = None"
    and "round_trip w (length (log st) + k)
           (build_request c meth (apiURL c @ endpoint) body) = Inr resp"
  shows "(400 \<le> resp_StatusCode resp \<and> resp_StatusCode resp < 500 \<and> resp_StatusCode resp \<noteq> 429 \<longrightarrow>
            (\<exists>st'. makeRequest w c meth endpoint body st =
                Some ((None, Some (MailpitError
                  \<lparr>Cause = None, Type = ErrorTypeAPI,
                   Message = ''API request failed with status '' @ Itoa (resp_StatusCode resp),
                   Response = body_data (resp_Body resp),
                   StatusCode = resp_StatusCode resp\<rparr>)), st')
              \<and> length (log st') = length (log st) + (k + 1)))
       \<and> (200 \<le> resp_StatusCode resp \<and> resp_StatusCode resp < 300 \<longrightarrow>
            (\<exists>st'. makeRequest w c meth endpoint body st = Some ((Some resp, None), st')
              \<and> length (log st') = length (log st) + (k + 1)))"
proof -
  have hist: "\<forall>i<k. retried (round_trip w (length (log st) + i)
                 (build_request c meth (apiURL c @ endpoint) body))"
    using assms(3) by (metis retried_Inl retried_5xx)
  show ?thesis
    using makeRequest_final_response[OF assms(1,2) hist assms(4,5)]
    by (simp add: length_attempt_outcomes api_error_def ReadAll_def)
qed

theorem makeRequest_client_error_not_retried_witness:
  "(\<exists>st'. makeRequest always_404 example_client MethodGet ''/message/x'' None fresh =
        Some ((None, Some (MailpitError
          \<lparr>Cause = None, Type = ErrorTypeAPI, Message = ''API request failed with status 404'',
           Response = ''not found'', StatusCode = 404\<rparr>)), st')
      \<and> length (log st') = 1)
   \<and> (\<exists>st'. makeRequest rate_limited_twice example_client MethodGet ''/messages'' None fresh =
        Some ((Some (response 200 ''{}''), None), st')
      \<and> length (log st') = 3)"
proof
  have "Itoa 404 = ''404''" by code_simp
  then show "\<exists>st'. makeRequest always_404 example_client MethodGet ''/message/x'' None fresh =
        Some ((None, Some (MailpitError
          \<lparr>Cause = None, Type = ErrorTypeAPI, Message = ''API request failed with status 404'',
           Response = ''not found'', StatusCode = 404\<rparr>)), st')
      \<and> length (log st') = 1"
    using makeRequest_client_error_not_retried[where w = always_404
            and meth = MethodGet and c = example_client and endpoint = "''/message/x''"
            and k = 0 and st = fresh and body = None and resp = "response 404 ''not found''"]
    by (auto simp: always_404_def example_client_def DefaultConfig_def fresh_def response_def)
  show "\<exists>st'. makeRequest rate_limited_twice example_client MethodGet ''/messages'' None fresh =
        Some ((Some (response 200 ''{}''), None), st')
      \<and> length (log st') = 3"
    using makeRequest_client_error_not_retried[where w = rate_limited_twice
            and meth = MethodGet and c = example_client and endpoint = "''/messages''"
            and k = 2 and st = fresh and body = None and resp = "response 200 ''{}''"]
    by (auto simp: rate_limited_twice_def example_client_def DefaultConfig_def fresh_def response_def)
qed

text \<open>
  Claim C7. When the context is done during the wait that precedes retry attempt
  \<open>k + 1\<close> (the \<open>k\<close> attempts before it were all retried, and the earlier waits ran
  their full delay), \<open>makeRequest\<close> returns the error of the context itself, which is
  not an error of the network class, and the log of the transport holds the \<open>k\<close>
  invocations made before the wait and nothing else: no attempt follows the cancellation.
\<close>

theorem makeRequest_cancelled_during_retry_delay:
  assumes "new_request_error w meth (apiURL c @ endpoint) = None"
    and "0 < k" and "int k \<le> sint (MaxRetries (config c))"
    and "\<forall>i<k. retried (round_trip w (length (log st) + i)
                 (build_request c meth (apiURL c @ endpoint) body))"
    and "\<forall>j. Suc j < k \<longrightarrow> ctx_done w (waited st + j) = None"
    and "ctx_done w (waited st + (k - 1)) = Some e"
  shows "makeRequest w c meth endpoint body st =
           Some ((None, Some (ContextError e)),
             \<lparr>log = log st @ attempt_outcomes w (build_request c meth (apiURL c @ endpoint) body)
                               (length (log st)) k,
              waited = waited st + k\<rparr>)
         \<and> \<not> is_network_error (ContextError e)"
proof -
  let ?u = "apiURL c @ endpoint"
  let ?req = "build_request c meth ?u body"
  let ?st = "\<lparr>log = log st @ attempt_outcomes w ?req (length (log st)) k,
              waited = waited st + (k - 1)\<rparr>"
  have b1: "int k \<le> sint (MaxRetries (config c)) + 1" using assms(3) by simp
  have run: "makeRequest w c meth endpoint body st =
      makeRequest_loop w c meth ?u body (of_nat k)
        (last_error None (attempt_outcomes w ?req (length (log st)) k)) ?st"
    by (rule makeRequest_retries[OF assms(1) b1 assms(4,5)])
  have le: "(of_nat k :: 64 word) \<le>s MaxRetries (config c)" by (rule of_nat_sle[OF assms(3)])
  have pos: "0 <s (of_nat k :: 64 word)" using of_nat_spos[OF assms(3)] assms(2) by simp
  have sel: "ctx_done w (waited ?st) = Some e" using assms(6) by simp
  show ?thesis
    using loop_cancelled[OF le pos sel] run assms(2) by (simp add: is_network_error_def)
qed

theorem makeRequest_cancelled_during_retry_delay_witness:
  "makeRequest cancelled_while_waiting example_client MethodGet ''/messages'' None fresh =
     Some ((None, Some (ContextError Canceled)), \<lparr>log = [Inl ''context canceled''], waited = 1\<rparr>)
   \<and> \<not> is_network_error (ContextError Canceled)"
  using makeRequest_cancelled_during_retry_delay[where w = cancelled_while_waiting
          and meth = MethodGet and c = example_client and endpoint = "''/messages''" and k = 1
          and st = fresh and body = None and e = Canceled]
  by (simp add: cancelled_while_waiting_def example_client_def DefaultConfig_def fresh_def
        retried_def attempt_outcomes_def)


lemma makeRequest_negative_retries:
  assumes "MaxRetries (config c) <s 0"
  shows "makeRequest w c meth endpoint body st = Some ((None, None), st)"
proof -
  have "\<not> (0 \<le>s MaxRetries (config c))"
    using assms by (simp add: word_sle_eq word_sless_alt)
  then show ?thesis
    unfolding makeRequest_def by (subst makeRequest_loop.simps) simp
qed

text \<open>
  Claim C10. With a negative \<open>MaxRetries\<close> the loop body never runs: \<open>makeRequest\<close>
  returns a nil response together with a nil error and the transport is not invoked, and
  a caller that goes on after the nil error, such as \<open>GetMessage\<close>, dereferences the nil
  response. With \<open>MaxRetries \<ge> 0\<close>, exactly one of the response and the error that
  \<open>makeRequest\<close> returns is nil; and it does return as long as \<open>MaxRetries\<close> is not
  the largest 64-bit integer, the one bound at which the counter wraps around.
\<close>

theorem makeRequest_nil_response_and_nil_error:
  "(MaxRetries (config c) <s 0 \<longrightarrow>
      makeRequest w c meth endpoint body st = Some ((None, None), st) \<and>
      (id' \<noteq> [] \<longrightarrow> GetMessage w T c id' st = Some (Panic nil_dereference, st)))
   \<and> (0 \<le>s MaxRetries (config c) \<longrightarrow>
        (\<forall>resp err st'. makeRequest w c meth endpoint body st = Some ((resp, err), st') \<longrightarrow>
            (resp = None) \<noteq> (err = None))
        \<and> (MaxRetries (config c) \<noteq> 2 ^ 63 - 1 \<longrightarrow>
            (\<exists>resp err st'. makeRequest w c meth endpoint body st = Some ((resp, err), st'))))"
proof (intro conjI impI allI)
  assume neg: "MaxRetries (config c) <s 0"
  show "makeRequest w c meth endpoint body st = Some ((None, None), st)"
    by (rule makeRequest_negative_retries[OF neg])
  assume "id' \<noteq> []"
  then show "GetMessage w T c id' st = Some (Panic nil_dereference, st)"
    by (simp add: GetMessage_def request_then_def makeRequest_negative_retries[OF neg]
          decode_into_def parseResponse_def)
next
  fix resp err st'
  assume "0 \<le>s MaxRetries (config c)"
    and "makeRequest w c meth endpoint body st = Some ((resp, err), st')"
  then show "(resp = None) \<noteq> (err = None)"
    using loop_xor_aux[of w c meth "apiURL c @ endpoint" body 0 None st "((resp, err), st')"]
    by (simp add: makeRequest_def)
next
  assume "MaxRetries (config c) \<noteq> 2 ^ 63 - 1"
  then show "\<exists>resp err st'. makeRequest w c meth endpoint body st = Some ((resp, err), st')"
    using loop_returns[of c w meth "apiURL c @ endpoint" body 0 None st]
    by (auto simp: makeRequest_def)
qed

theorem makeRequest_nil_response_and_nil_error_witness:
  "- 1 <s (0 :: 64 word)
   \<and> makeRequest fails_twice negative_retries_client MethodGet ''/message/x'' None fresh =
       Some ((None, None), fresh)
   \<and> GetMessage fails_twice keep_text negative_retries_client ''x'' fresh =
       Some (Panic nil_dereference, fresh)
   \<and> (0 :: 64 word) \<le>s 3
   \<and> (\<exists>resp err st'. makeRequest fails_twice example_client MethodGet ''/message/x'' None fresh =
          Some ((resp, err), st') \<and> (resp = None) \<noteq> (err = None))"
  using makeRequest_nil_response_and_nil_error[where c = negative_retries_client
          and w = fails_twice and meth = MethodGet and endpoint = "''/message/x''"
          and body = None and st = fresh and id' = "''x''" and T = keep_text]
        makeRequest_nil_response_and_nil_error[where c = example_client
          and w = fails_twice and meth = MethodGet and endpoint = "''/message/x''"
          and body = None and st = fresh and id' = "''x''" and T = keep_text]
  by (auto simp: negative_retries_client_def example_client_def DefaultConfig_def
        word_sle_eq word_sless_alt)


lemma validation_failure_rejected: "rejected_without_request (validation_failure message st) st"
  by (simp add: rejected_without_request_def validation_failure_def NewValidationError_def)

text \<open>
  Claim C4. Every operation that takes a message ID, a tag, a search query, or a part or
  attachment ID returns a validation error when that identifier is the empty string, and
  leaves the state of the network untouched: the transport is invoked zero times.
\<close>

theorem empty_identifier_rejected_without_request:
  "rejected_without_request (GetMessage w T c [] st) st
   \<and> rejected_without_request (GetMessageSource w c [] st) st
   \<and> rejected_without_request (DeleteMessage w c [] st) st
   \<and> rejected_without_request (SearchMessages w T c [] sopts st) st
   \<and> rejected_without_request (GetMessageAttachment w c [] attachmentID st) st
   \<and> rejected_without_request (GetMessageAttachment w c messageID [] st) st
   \<and> rejected_without_request (MarkMessageRead w c [] st) st
   \<and> rejected_without_request (MarkMessageUnread w c [] st) st
   \<and> rejected_without_request (GetMessageHeaders w T c [] st) st
   \<and> rejected_without_request (GetMessageHTMLCheck w T c [] st) st
   \<and> rejected_without_request (GetMessageLinkCheck w T c [] st) st
   \<and> rejected_without_request (GetMessageSpamAssassinCheck w T c [] st) st
   \<and> rejected_without_request (GetMessagePart w c [] partID st) st
   \<and> rejected_without_request (GetMessagePart w c messageID [] st) st
   \<and> rejected_without_request (GetMessagePartThumbnail w c [] partID st) st
   \<and> rejected_without_request (GetMessagePartThumbnail w c messageID [] st) st
   \<and> rejected_without_request (ReleaseMessage w enc c [] releaseData st) st
   \<and> rejected_without_request (DeleteSearchResults w c [] st) st
   \<and> rejected_without_request (GetMessageHTML w c [] st) st
   \<and> rejected_without_request (GetMessageText w c [] st) st
   \<and> rejected_without_request (GetMessageRaw w c [] st) st
   \<and> rejected_without_request (GetMessagePartHTML w c [] partID st) st
   \<and> rejected_without_request (GetMessagePartHTML w c messageID [] st) st
   \<and> rejected_without_request (GetMessagePartText w c [] partID st) st
   \<and> rejected_without_request (GetMessagePartText w c messageID [] st) st
   \<and> rejected_without_request (GetMessageEvents w T c [] st) st
   \<and> rejected_without_request (SetMessageTags w tenc c [] messageIDs st) st
   \<and> rejected_without_request (DeleteTag w c [] st) st"
  by (simp add: validation_failure_rejected GetMessage_def GetMessageSource_def DeleteMessage_def
        SearchMessages_def GetMessageAttachment_def MarkMessageRead_def MarkMessageUnread_def
        GetMessageHeaders_def GetMessageHTMLCheck_def GetMessageLinkCheck_def
        GetMessageSpamAssassinCheck_def GetMessagePart_def GetMessagePartThumbnail_def
        ReleaseMessage_def DeleteSearchResults_def GetMessageHTML_def GetMessageText_def
        GetMessageRaw_def GetMessagePartHTML_def GetMessagePartText_def GetMessageEvents_def
        SetMessageTags_def DeleteTag_def)

text \<open>
  Claim C8, as stated, fails for a nil target: the body \<open>not json\<close> is not empty and
  cannot be decoded, yet \<open>parseResponse\<close> returns a nil error, because it returns
  before it reads the body.
\<close>

theorem parseResponse_nil_target_counterexample:
  "ReadAll (resp_Body (response 200 ''not json'')) = (''not json'', None)
   \<and> ''not json'' \<noteq> []
   \<and> fst (json_Unmarshal_any reject_all ''not json'' None) \<noteq> None
   \<and> parseResponse reject_all (Some (response 200 ''not json'')) None = Return (None, None)"
  by (simp add: ReadAll_def response_def json_Unmarshal_any_def parseResponse_def)

text \<open>
  Claim C8, amended. For a response whose body is read as empty, \<open>parseResponse\<close>
  returns a nil error and leaves the target as it was. With a nil target it returns a nil
  error whatever the body. For a target that is not nil and a body that is read without
  error, is not empty, and that the decoder of the target rejects, it returns an error of
  the response class whose cause is the error of the decoder.
\<close>

theorem parseResponse_empty_or_undecodable:
  "(ReadAll (resp_Body resp) = ([], None) \<longrightarrow>
      parseResponse unm (Some resp) target = Return (None, target))
   \<and> (target = None \<longrightarrow> parseResponse unm (Some resp) target = Return (None, None))
   \<and> (ReadAll (resp_Body resp) = (body, None) \<and> body \<noteq> [] \<and> target = Some t \<and>
        unm body t = (Some err, t') \<longrightarrow>
        parseResponse unm (Some resp) target =
          Return (Some (MailpitError
            \<lparr>Cause = Some err, Type = ErrorTypeResponse,
             Message = ''failed to parse JSON response: '' @ err,
             Response = [], StatusCode = 0\<rparr>), Some t'))"
  by (auto simp: parseResponse_def response_error_def split: option.splits)

theorem parseResponse_empty_or_undecodable_witness:
  "parseResponse reject_all (Some (response 204 [])) (Some ()) = Return (None, Some ())
   \<and> parseResponse reject_all (Some (response 200 ''not json'')) None = Return (None, None)
   \<and> parseResponse reject_all (Some (response 200 ''not json'')) (Some ()) =
          Return (Some (MailpitError
            \<lparr>Cause = Some ''invalid character'', Type = ErrorTypeResponse,
             Message = ''failed to parse JSON response: invalid character'',
             Response = [], StatusCode = 0\<rparr>), Some ())"
  using parseResponse_empty_or_undecodable[where resp = "response 204 []" and unm = reject_all
          and target = "Some ()"]
        parseResponse_empty_or_undecodable[where resp = "response 200 ''not json''"
          and unm = reject_all and target = None]
        parseResponse_empty_or_undecodable[where resp = "response 200 ''not json''"
          and unm = reject_all and target = "Some ()" and body = "''not json''" and t = "()"
          and err = "''invalid character''" and t' = "()"]
  by (simp add: ReadAll_def response_def reject_all_def)


section \<open>Verification: query strings\<close>

lemma upperhex_digits:
  "\<forall>n\<in>set [0..<16]. ishex (upperhex ! n) \<and> unhex (upperhex ! n) = n
      \<and> upperhex ! n \<notin> set ''&;=''"
  by code_simp

lemma upperhex_digit:
  assumes "n < 16"
  shows "ishex (upperhex ! n)" "unhex (upperhex ! n) = n"
    "upperhex ! n \<noteq> CHR ''&''" "upperhex ! n \<noteq> CHR '';''" "upperhex ! n \<noteq> CHR ''=''"
  using assms upperhex_digits by auto

lemma of_char_div16: "(of_char c :: nat) div 16 < 16"
proof -
  have "(of_char c :: nat) < 16 * 16" by simp
  then show ?thesis by (simp only: div_less_iff_less_mult zero_less_numeral)
qed

lemma char_of_nibbles: "char_of ((of_char c :: nat) div 16 * 16 + of_char c mod 16) = c"
  by simp

lemma shouldEscape_query_special:
  "shouldEscape CHR ''&'' encodeQueryComponent" "shouldEscape CHR '';'' encodeQueryComponent"
  "shouldEscape CHR ''='' encodeQueryComponent" "shouldEscape CHR ''%'' encodeQueryComponent"
  "shouldEscape CHR ''+'' encodeQueryComponent" "shouldEscape CHR '' '' encodeQueryComponent"
  by (simp_all add: shouldEscape_def is_alnum_def between_def)

lemma escape_query_no_separator:
  "CHR ''&'' \<notin> set (escape s encodeQueryComponent)
   \<and> CHR '';'' \<notin> set (escape s encodeQueryComponent)
   \<and> CHR ''='' \<notin> set (escape s encodeQueryComponent)"
proof (induction s)
  case Nil
  then show ?case by simp
next
  case (Cons c s)
  have d: "(of_char c :: nat) div 16 < 16" by (rule of_char_div16)
  have m: "(of_char c :: nat) mod 16 < 16" by simp
  show ?case
    using Cons upperhex_digit(3,4,5)[OF d] upperhex_digit(3,4,5)[OF m] shouldEscape_query_special
    by auto
qed

lemma unescape_check_escape: "unescape_check encodeQueryComponent (escape s encodeQueryComponent) = None"
proof (induction s)
  case Nil
  then show ?case by simp
next
  case (Cons c s)
  have d: "(of_char c :: nat) div 16 < 16" by (rule of_char_div16)
  have m: "(of_char c :: nat) mod 16 < 16" by simp
  show ?case
    using Cons upperhex_digit(1)[OF d] upperhex_digit(1)[OF m] shouldEscape_query_special
    by auto
qed

lemma unescape_bytes_escape: "unescape_bytes encodeQueryComponent (escape s encodeQueryComponent) = s"
proof (induction s)
  case Nil
  then show ?case by simp
next
  case (Cons c s)
  have d: "(of_char c :: nat) div 16 < 16" by (rule of_char_div16)
  have m: "(of_char c :: nat) mod 16 < 16" by simp
  show ?case
    using Cons upperhex_digit(2)[OF d] upperhex_digit(2)[OF m] shouldEscape_query_special
      char_of_nibbles[of c]
    by auto
qed

lemma QueryUnescape_QueryEscape: "QueryUnescape (QueryEscape s) = Inr s"
  by (simp add: QueryUnescape_def QueryEscape_def unescape_def unescape_check_escape
        unescape_bytes_escape)


lemma Cut_found:
  assumes "sep \<notin> set a"
  shows "Cut (a @ sep # rest) sep = (a, rest, True)"
proof -
  have all: "\<And>c. c \<in> set a \<Longrightarrow> c \<noteq> sep" using assms by auto
  have "takeWhile (\<lambda>c. c \<noteq> sep) (a @ sep # rest) = a"
    using takeWhile_append2[of a "\<lambda>c. c \<noteq> sep" "sep # rest"] all by simp
  moreover have "dropWhile (\<lambda>c. c \<noteq> sep) (a @ sep # rest) = sep # rest"
    using dropWhile_append2[of a "\<lambda>c. c \<noteq> sep" "sep # rest"] all by simp
  ultimately show ?thesis by (simp add: Cut_def)
qed

lemma Cut_none: "sep \<notin> set a \<Longrightarrow> Cut a sep = (a, [], False)"
  by (simp add: Cut_def)

lemma segment_chars: "CHR ''&'' \<notin> set (segment k x)" "CHR '';'' \<notin> set (segment k x)"
  "segment k x \<noteq> []"
  using escape_query_no_separator[of k] escape_query_no_separator[of x]
  by (simp_all add: segment_def QueryEscape_def)

lemma Cut_segment: "Cut (segment k x) CHR ''='' = (QueryEscape k, QueryEscape x, True)"
  using escape_query_no_separator[of k]
  by (simp add: segment_def QueryEscape_def Cut_found)

lemma parseQuery_segment:
  "parseQuery m (segment k x @ CHR ''&'' # rest) err = parseQuery (Values_append k x m) rest err"
  by (subst parseQuery.simps)
     (simp add: Cut_found segment_chars Cut_segment QueryUnescape_QueryEscape)

lemma parseQuery_last_segment:
  "parseQuery m (segment k x) err = (Values_append k x m, err)"
proof -
  have "parseQuery m (segment k x) err = parseQuery (Values_append k x m) [] err"
    by (subst parseQuery.simps)
       (simp add: Cut_none segment_chars Cut_segment QueryUnescape_QueryEscape)
  then show ?thesis by (simp add: parseQuery.simps)
qed

lemma Join_Cons: "Join (e # es) sep = e @ concat (map (\<lambda>x. sep @ x) es)"
  by (simp add: Join_def)

lemma Join_Cons_Cons: "Join (e # e' # es) sep = e @ sep @ Join (e' # es) sep"
  by (simp add: Join_def)

lemma parseQuery_Join:
  "parseQuery m (Join (map pair_segment ps) ''&'') err =
     (fold (\<lambda>p. Values_append (fst p) (snd p)) ps m, err)"
proof (induction ps arbitrary: m)
  case Nil
  then show ?case by (simp add: Join_def parseQuery.simps)
next
  case (Cons p ps)
  show ?case
  proof (cases ps)
    case Nil
    then show ?thesis by (simp add: Join_def parseQuery_last_segment pair_segment_def)
  next
    case (Cons q qs)
    have "Join (map pair_segment (p # ps)) ''&'' =
          segment (fst p) (snd p) @ CHR ''&'' # Join (map pair_segment ps) ''&''"
      using Cons by (simp add: Join_Cons_Cons pair_segment_def)
    then show ?thesis using Cons.IH by (simp add: parseQuery_segment)
  qed
qed

lemma fold_values_of_key:
  "fold (\<lambda>x buf. (if buf \<noteq> [] then buf @ ''&'' else buf) @ QueryEscape k @ CHR ''='' # QueryEscape x)
        xs buf =
   fold (\<lambda>p buf. add_segment buf (pair_segment p)) (map (Pair k) xs) buf"
  by (induction xs arbitrary: buf) (simp_all add: add_segment_def segment_def pair_segment_def)

lemma fold_keys:
  "fold (\<lambda>k. fold (\<lambda>x buf. (if buf \<noteq> [] then buf @ ''&'' else buf)
                            @ QueryEscape k @ CHR ''='' # QueryEscape x)
                (Values_lookup v k)) ks buf =
   fold (\<lambda>p buf. add_segment buf (pair_segment p)) (query_pairs v ks) buf"
proof (induction ks arbitrary: buf)
  case Nil
  then show ?case by (simp add: query_pairs_def)
next
  case (Cons k ks)
  have "query_pairs v (k # ks) = map (Pair k) (Values_lookup v k) @ query_pairs v ks"
    by (simp add: query_pairs_def)
  then show ?case using Cons by (simp add: fold_values_of_key)
qed

lemma fold_add_segment:
  "fold (\<lambda>p buf. add_segment buf (pair_segment p)) ps buf =
     (if buf = [] then Join (map pair_segment ps) ''&''
      else buf @ concat (map ((#) CHR ''&'') (map pair_segment ps)))"
proof (induction ps arbitrary: buf)
  case Nil
  then show ?case by (simp add: Join_def)
next
  case (Cons p ps)
  let ?F = "\<lambda>p buf. add_segment buf (pair_segment p)"
  have ne: "add_segment buf (pair_segment p) \<noteq> []"
    using segment_chars(3)[of "fst p" "snd p"] by (simp add: add_segment_def pair_segment_def)
  have IH: "fold ?F ps (add_segment buf (pair_segment p)) =
            add_segment buf (pair_segment p) @ concat (map ((#) CHR ''&'') (map pair_segment ps))"
    using Cons[of "add_segment buf (pair_segment p)"] ne by simp
  show ?case
  proof (cases "buf = []")
    case True
    then have "add_segment buf (pair_segment p) = pair_segment p" by (simp add: add_segment_def)
    then show ?thesis using IH True by (simp add: Join_Cons)
  next
    case False
    then have "add_segment buf (pair_segment p) = buf @ ''&'' @ pair_segment p"
      by (simp add: add_segment_def)
    then show ?thesis using IH False by simp
  qed
qed

lemma Values_Encode_Join:
  "Values_Encode v = Join (map pair_segment (query_pairs v (sort (map fst v)))) ''&''"
proof (cases v)
  case Nil
  then show ?thesis by (simp add: Values_Encode_def query_pairs_def Join_def)
next
  case (Cons a list)
  have "Values_Encode v =
      fold (\<lambda>k. fold (\<lambda>x buf. (if buf \<noteq> [] then buf @ ''&'' else buf)
                            @ QueryEscape k @ CHR ''='' # QueryEscape x)
                (Values_lookup v k)) (sort (map fst v)) []"
    using Cons by (simp add: Values_Encode_def del: sort_key_simps)
  then show ?thesis by (simp add: fold_keys fold_add_segment)
qed

lemma ParseQuery_Encode:
  "ParseQuery (Values_Encode v) =
     (fold (\<lambda>p. Values_append (fst p) (snd p)) (query_pairs v (sort (map fst v))) [], None)"
  by (simp add: ParseQuery_def Values_Encode_Join parseQuery_Join)

lemma Values_lookup_append:
  "Values_lookup (Values_append k x m) key =
     (if key = k then Values_lookup m k @ [x] else Values_lookup m key)"
  by (simp add: Values_lookup_def Values_append_def update_conv')

lemma Values_lookup_fold_append:
  "Values_lookup (fold (\<lambda>p. Values_append (fst p) (snd p)) ps m) key =
     Values_lookup m key @ map snd (filter (\<lambda>p. fst p = key) ps)"
  by (induction ps arbitrary: m) (auto simp: Values_lookup_append)

lemma keys_Values_append: "fst ` set (Values_append k x m) = insert k (fst ` set m)"
  using dom_update[of k "Values_lookup m k @ [x]" m]
  by (simp add: Values_append_def dom_map_of_conv_image_fst)

lemma keys_fold_append:
  "fst ` set (fold (\<lambda>p. Values_append (fst p) (snd p)) ps m) = fst ` set m \<union> fst ` set ps"
  by (induction ps arbitrary: m) (auto simp: keys_Values_append)

lemma filter_query_pairs:
  assumes "distinct ks"
  shows "map snd (filter (\<lambda>p. fst p = key) (query_pairs v ks)) =
           (if key \<in> set ks then Values_lookup v key else [])"
  using assms
proof (induction ks)
  case Nil
  then show ?case by (simp add: query_pairs_def)
next
  case (Cons k ks)
  have q: "query_pairs v (k # ks) = map (Pair k) (Values_lookup v k) @ query_pairs v ks"
    by (simp add: query_pairs_def)
  have f: "map snd (filter (\<lambda>p. fst p = key) (map (Pair k) xs)) = (if key = k then xs else [])"
    for xs :: "string list"
    by (induction xs) auto
  show ?case using Cons f[of "Values_lookup v k"] by (auto simp: q)
qed

lemma Values_lookup_not_key:
  assumes "key \<notin> fst ` set v"
  shows "Values_lookup v key = []"
proof -
  have "map_of v key = None" using assms by (simp add: map_of_eq_None_iff)
  then show ?thesis by (simp add: Values_lookup_def)
qed

lemma ParseQuery_Encode_lookup:
  assumes "distinct (map fst v)"
  shows "snd (ParseQuery (Values_Encode v)) = None"
    and "Values_lookup (fst (ParseQuery (Values_Encode v))) key = Values_lookup v key"
proof -
  show "snd (ParseQuery (Values_Encode v)) = None" by (simp add: ParseQuery_Encode)
  have d: "distinct (sort (map fst v))" using assms by simp
  have e: "Values_lookup [] key = []" by (simp add: Values_lookup_def)
  have "Values_lookup (fst (ParseQuery (Values_Encode v))) key =
        map snd (filter (\<lambda>p. fst p = key) (query_pairs v (sort (map fst v))))"
    by (simp add: ParseQuery_Encode Values_lookup_fold_append e)
  also have "\<dots> = (if key \<in> set (sort (map fst v)) then Values_lookup v key else [])"
    by (rule filter_query_pairs[OF d])
  also have "\<dots> = Values_lookup v key"
    using Values_lookup_not_key[of key v] by auto
  finally show "Values_lookup (fst (ParseQuery (Values_Encode v))) key = Values_lookup v key" .
qed

lemma keys_query_pairs:
  "fst ` set (query_pairs v ks) = {k \<in> set ks. Values_lookup v k \<noteq> []}"
proof (induction ks)
  case Nil
  then show ?case by (simp add: query_pairs_def)
next
  case (Cons k ks)
  have q: "query_pairs v (k # ks) = map (Pair k) (Values_lookup v k) @ query_pairs v ks"
    by (simp add: query_pairs_def)
  have "fst ` set (map (Pair k) (Values_lookup v k)) = (if Values_lookup v k = [] then {} else {k})"
    by (cases "Values_lookup v k") (auto simp: image_iff)
  then show ?case using Cons by (auto simp: q image_Un)
qed

lemma ParseQuery_Encode_keys:
  "fst ` set (fst (ParseQuery (Values_Encode v))) = {k \<in> fst ` set v. Values_lookup v k \<noteq> []}"
  by (simp add: ParseQuery_Encode keys_fold_append keys_query_pairs)


lemma distinct_Values_Set: "distinct (map fst v) \<Longrightarrow> distinct (map fst (Values_Set key value v))"
  by (simp add: Values_Set_def distinct_update)

lemma distinct_ListOptions_ToURLValues: "distinct (map fst (ListOptions_ToURLValues opts))"
  by (cases opts) (simp_all add: ListOptions_ToURLValues_def Let_def distinct_Values_Set)

lemma distinct_SearchOptions_ToURLValues: "distinct (map fst (SearchOptions_ToURLValues opts))"
  by (cases opts) (simp_all add: SearchOptions_ToURLValues_def Let_def distinct_Values_Set)

lemma Values_lookup_Set:
  "Values_lookup (Values_Set k x v) key = (if key = k then [x] else Values_lookup v key)"
  by (simp add: Values_lookup_def Values_Set_def update_conv')

lemma keys_Values_Set: "fst ` set (Values_Set k x v) = insert k (fst ` set v)"
  using dom_update[of k "[x]" v] by (simp add: Values_Set_def dom_map_of_conv_image_fst)

lemma Values_lookup_Nil: "Values_lookup [] key = []"
  by (simp add: Values_lookup_def)

lemma ListOptions_lookup:
  "Values_lookup (ListOptions_ToURLValues (Some lo)) ''start'' =
     (if 0 < ListOptions.Start lo then [Itoa (ListOptions.Start lo)] else [])"
  "Values_lookup (ListOptions_ToURLValues (Some lo)) ''limit'' =
     (if 0 < ListOptions.Limit lo then [Itoa (ListOptions.Limit lo)] else [])"
  "Values_lookup (ListOptions_ToURLValues (Some lo)) ''query'' =
     (if Query lo \<noteq> [] then [Query lo] else [])"
  "Values_lookup (ListOptions_ToURLValues (Some lo)) ''tag'' =
     (if ListOptions.Tag lo \<noteq> [] then [ListOptions.Tag lo] else [])"
  "Values_lookup (ListOptions_ToURLValues (Some lo)) ''sort'' =
     (if ListOptions.Sort lo \<noteq> [] then [ListOptions.Sort lo] else [])"
  by (simp_all add: ListOptions_ToURLValues_def Let_def Values_lookup_Set Values_lookup_Nil)

lemma ListOptions_keys:
  "fst ` set (ListOptions_ToURLValues (Some lo)) =
     (if 0 < ListOptions.Start lo then {''start''} else {}) \<union>
     (if 0 < ListOptions.Limit lo then {''limit''} else {}) \<union>
     (if Query lo \<noteq> [] then {''query''} else {}) \<union>
     (if ListOptions.Tag lo \<noteq> [] then {''tag''} else {}) \<union>
     (if ListOptions.Sort lo \<noteq> [] then {''sort''} else {})"
  by (auto simp: ListOptions_ToURLValues_def Let_def keys_Values_Set)

lemma SearchOptions_lookup:
  "Values_lookup (SearchOptions_ToURLValues (Some so)) ''start'' =
     (if 0 < SearchOptions.Start so then [Itoa (SearchOptions.Start so)] else [])"
  "Values_lookup (SearchOptions_ToURLValues (Some so)) ''limit'' =
     (if 0 < SearchOptions.Limit so then [Itoa (SearchOptions.Limit so)] else [])"
  by (simp_all add: SearchOptions_ToURLValues_def Let_def Values_lookup_Set Values_lookup_Nil)

lemma SearchOptions_keys:
  "fst ` set (SearchOptions_ToURLValues (Some so)) =
     (if 0 < SearchOptions.Start so then {''start''} else {}) \<union>
     (if 0 < SearchOptions.Limit so then {''limit''} else {}) \<union>
     (if SearchOptions.Tag so \<noteq> [] then {''tag''} else {}) \<union>
     (if SearchOptions.Sort so \<noteq> [] then {''sort''} else {})"
  by (auto simp: SearchOptions_ToURLValues_def Let_def keys_Values_Set)

text \<open>
  Claim C6. For every \<open>ListOptions\<close> and every \<open>SearchOptions\<close>, the query string that
  \<open>Encode\<close> writes for the values of \<open>ToURLValues\<close>, read back with \<open>ParseQuery\<close>,
  has the key \<open>start\<close> exactly when \<open>Start\<close> is positive, and then with the decimal
  text of \<open>Start\<close> as its one value; likewise \<open>limit\<close> and \<open>Limit\<close>. When neither is
  positive and the string fields are empty, the encoded query string is empty.
\<close>

theorem ToURLValues_start_limit_iff_positive:
  "(''start'' \<in> fst ` set (fst (ParseQuery (Values_Encode (ListOptions_ToURLValues (Some lo)))))
      \<longleftrightarrow> 0 < ListOptions.Start lo)
   \<and> (0 < ListOptions.Start lo \<longrightarrow>
        Values_lookup (fst (ParseQuery (Values_Encode (ListOptions_ToURLValues (Some lo))))) ''start''
          = [Itoa (ListOptions.Start lo)])
   \<and> (''limit'' \<in> fst ` set (fst (ParseQuery (Values_Encode (ListOptions_ToURLValues (Some lo)))))
      \<longleftrightarrow> 0 < ListOptions.Limit lo)
   \<and> (0 < ListOptions.Limit lo \<longrightarrow>
        Values_lookup (fst (ParseQuery (Values_Encode (ListOptions_ToURLValues (Some lo))))) ''limit''
          = [Itoa (ListOptions.Limit lo)])
   \<and> (ListOptions.Start lo \<le> 0 \<and> ListOptions.Limit lo \<le> 0 \<and> Query lo = [] \<and>
        ListOptions.Tag lo = [] \<and> ListOptions.Sort lo = [] \<longrightarrow>
        Values_Encode (ListOptions_ToURLValues (Some lo)) = [])
   \<and> (''start'' \<in> fst ` set (fst (ParseQuery (Values_Encode (SearchOptions_ToURLValues (Some so)))))
      \<longleftrightarrow> 0 < SearchOptions.Start so)
   \<and> (0 < SearchOptions.Start so \<longrightarrow>
        Values_lookup (fst (ParseQuery (Values_Encode (SearchOptions_ToURLValues (Some so))))) ''start''
          = [Itoa (SearchOptions.Start so)])
   \<and> (''limit'' \<in> fst ` set (fst (ParseQuery (Values_Encode (SearchOptions_ToURLValues (Some so)))))
      \<longleftrightarrow> 0 < SearchOptions.Limit so)
   \<and> (0 < SearchOptions.Limit so \<longrightarrow>
        Values_lookup (fst (ParseQuery (Values_Encode (SearchOptions_ToURLValues (Some so))))) ''limit''
          = [Itoa (SearchOptions.Limit so)])
   \<and> (SearchOptions.Start so \<le> 0 \<and> SearchOptions.Limit so \<le> 0 \<and>
        SearchOptions.Tag so = [] \<and> SearchOptions.Sort so = [] \<longrightarrow>
        Values_Encode (SearchOptions_ToURLValues (Some so)) = [])"
proof -
  have l: "Values_lookup (fst (ParseQuery (Values_Encode (ListOptions_ToURLValues (Some lo))))) key
           = Values_lookup (ListOptions_ToURLValues (Some lo)) key" for key
    by (rule ParseQuery_Encode_lookup(2)[OF distinct_ListOptions_ToURLValues])
  have s: "Values_lookup (fst (ParseQuery (Values_Encode (SearchOptions_ToURLValues (Some so))))) key
           = Values_lookup (SearchOptions_ToURLValues (Some so)) key" for key
    by (rule ParseQuery_Encode_lookup(2)[OF distinct_SearchOptions_ToURLValues])
  have el: "ListOptions.Start lo \<le> 0 \<and> ListOptions.Limit lo \<le> 0 \<and> Query lo = [] \<and>
        ListOptions.Tag lo = [] \<and> ListOptions.Sort lo = [] \<longrightarrow>
        Values_Encode (ListOptions_ToURLValues (Some lo)) = []"
    by (simp add: ListOptions_ToURLValues_def Values_Encode_def)
  have es: "SearchOptions.Start so \<le> 0 \<and> SearchOptions.Limit so \<le> 0 \<and>
        SearchOptions.Tag so = [] \<and> SearchOptions.Sort so = [] \<longrightarrow>
        Values_Encode (SearchOptions_ToURLValues (Some so)) = []"
    by (simp add: SearchOptions_ToURLValues_def Values_Encode_def)
  show ?thesis
    using el es
    by (simp add: l s ParseQuery_Encode_keys ListOptions_lookup SearchOptions_lookup
          ListOptions_keys SearchOptions_keys)
qed


theorem ToURLValues_start_limit_iff_positive_witness:
  "''start'' \<in> fst ` set (fst (ParseQuery (Values_Encode (ListOptions_ToURLValues (Some only_start)))))
   \<and> Values_lookup (fst (ParseQuery (Values_Encode (ListOptions_ToURLValues (Some only_start)))))
         ''start'' = [''10'']
   \<and> ''limit'' \<notin> fst ` set (fst (ParseQuery (Values_Encode (ListOptions_ToURLValues (Some only_start)))))
   \<and> Values_Encode (ListOptions_ToURLValues (Some unset_fields)) = []
   \<and> ''start'' \<notin> fst ` set (fst (ParseQuery (Values_Encode (SearchOptions_ToURLValues (Some only_limit)))))
   \<and> ''limit'' \<in> fst ` set (fst (ParseQuery (Values_Encode (SearchOptions_ToURLValues (Some only_limit)))))
   \<and> Values_lookup (fst (ParseQuery (Values_Encode (SearchOptions_ToURLValues (Some only_limit)))))
         ''limit'' = [''5'']
   \<and> Values_Encode (SearchOptions_ToURLValues (Some unset_search_fields)) = []"
proof -
  have i: "Itoa 10 = ''10''" "Itoa 5 = ''5''" by code_simp+
  show ?thesis
    using ToURLValues_start_limit_iff_positive[of only_start only_limit]
      ToURLValues_start_limit_iff_positive[of unset_fields unset_search_fields]
    by (simp add: i only_start_def only_limit_def unset_fields_def unset_search_fields_def)
qed

text \<open>
  Claim C9. For every \<open>ListOptions\<close> with \<open>Query\<close>, \<open>Tag\<close> and \<open>Sort\<close> not empty and
  \<open>Start\<close> and \<open>Limit\<close> positive, \<open>ListMessages\<close> requests \<open>/messages?\<close> followed by the
  encoded options, and parsing the encoded options back gives, without error, exactly
  the five keys \<open>query\<close>, \<open>tag\<close>, \<open>sort\<close>, \<open>start\<close> and \<open>limit\<close>, each with its original
  value. No restriction on the bytes of the strings is needed: what is escaped is
  unescaped.
\<close>

theorem ListOptions_query_round_trip:
  assumes "Query lo \<noteq> []" and "ListOptions.Tag lo \<noteq> []" and "ListOptions.Sort lo \<noteq> []"
    and "0 < ListOptions.Start lo" and "0 < ListOptions.Limit lo"
  shows "ListMessages w T c (Some lo) st =
           request_then w c MethodGet
             (''/messages?'' @ Values_Encode (ListOptions_ToURLValues (Some lo))) None
             (decode_into T) st
         \<and> (\<exists>m. ParseQuery (Values_Encode (ListOptions_ToURLValues (Some lo))) = (m, None)
           \<and> fst ` set m = {''query'', ''tag'', ''sort'', ''start'', ''limit''}
           \<and> Values_lookup m ''query'' = [Query lo]
           \<and> Values_lookup m ''tag'' = [ListOptions.Tag lo]
           \<and> Values_lookup m ''sort'' = [ListOptions.Sort lo]
           \<and> Values_lookup m ''start'' = [Itoa (ListOptions.Start lo)]
           \<and> Values_lookup m ''limit'' = [Itoa (ListOptions.Limit lo)])"
proof -
  let ?v = "ListOptions_ToURLValues (Some lo)"
  obtain m e where p: "ParseQuery (Values_Encode ?v) = (m, e)" by (cases "ParseQuery (Values_Encode ?v)")
  have e: "e = None"
    using ParseQuery_Encode_lookup(1)[OF distinct_ListOptions_ToURLValues, of "Some lo"] p by simp
  have l: "Values_lookup m key = Values_lookup ?v key" for key
    using ParseQuery_Encode_lookup(2)[OF distinct_ListOptions_ToURLValues, of "Some lo" key] p by simp
  have k: "fst ` set m = {k \<in> fst ` set ?v. Values_lookup ?v k \<noteq> []}"
    using ParseQuery_Encode_keys[of ?v] p by simp
  have keys: "fst ` set m = {''query'', ''tag'', ''sort'', ''start'', ''limit''}"
    using assms by (auto simp: k ListOptions_keys ListOptions_lookup)
  have "''start'' \<in> fst ` set ?v" using assms by (simp add: ListOptions_keys)
  then have ne: "?v \<noteq> []" by (cases ?v) simp_all
  have lm: "ListMessages w T c (Some lo) st =
               request_then w c MethodGet (''/messages?'' @ Values_Encode ?v) None (decode_into T) st"
    using ne by (simp add: ListMessages_def Let_def)
  show ?thesis
    using p e keys lm assms by (simp add: l ListOptions_lookup)
qed

theorem ListOptions_query_round_trip_witness:
  "Values_Encode (ListOptions_ToURLValues (Some all_fields)) =
     ''limit=25&query=test+query&sort=date&start=10&tag=important''
   \<and> (\<exists>m. ParseQuery (Values_Encode (ListOptions_ToURLValues (Some all_fields))) = (m, None)
           \<and> fst ` set m = {''query'', ''tag'', ''sort'', ''start'', ''limit''}
           \<and> Values_lookup m ''query'' = [''test query'']
           \<and> Values_lookup m ''tag'' = [''important'']
           \<and> Values_lookup m ''sort'' = [''date'']
           \<and> Values_lookup m ''start'' = [''10'']
           \<and> Values_lookup m ''limit'' = [''25''])"
proof
  have v: "ListOptions_ToURLValues (Some all_fields) =
      [(''start'', [''10'']), (''limit'', [''25'']), (''query'', [''test query'']),
       (''tag'', [''important'']), (''sort'', [''date''])]"
    by code_simp
  have "Values_Encode
      [(''start'', [''10'']), (''limit'', [''25'']), (''query'', [''test query'']),
       (''tag'', [''important'']), (''sort'', [''date''])] =
     ''limit=25&query=test+query&sort=date&start=10&tag=important''"
    by code_simp
  then show "Values_Encode (ListOptions_ToURLValues (Some all_fields)) =
     ''limit=25&query=test+query&sort=date&start=10&tag=important''"
    by (simp only: v)
  have i: "Itoa 10 = ''10''" "Itoa 25 = ''25''" by code_simp+
  show "\<exists>m. ParseQuery (Values_Encode (ListOptions_ToURLValues (Some all_fields))) = (m, None)
           \<and> fst ` set m = {''query'', ''tag'', ''sort'', ''start'', ''limit''}
           \<and> Values_lookup m ''query'' = [''test query'']
           \<and> Values_lookup m ''tag'' = [''important'']
           \<and> Values_lookup m ''sort'' = [''date'']
           \<and> Values_lookup m ''start'' = [''10'']
           \<and> Values_lookup m ''limit'' = [''25'']"
    using ListOptions_query_round_trip[where lo = all_fields and w = fails_twice and T = keep_text
            and c = example_client and st = fresh]
    by (simp add: i all_fields_def)
qed


section \<open>Verification: client construction\<close>

text \<open>
  Claim C5, as stated, fails for a base URL that is a relative reference: \<open>localhost\<close>
  is parsed as a path, without a scheme, so it is not an absolute URL, and \<open>NewClient\<close>
  builds a client for it.
\<close>

theorem NewClient_relative_base_URL_counterexample:
  "url_Parse (BaseURL relative_config) = Inr (empty_URL\<lparr>Path := ''localhost''\<rparr>)
   \<and> \<not> IsAbs (empty_URL\<lparr>Path := ''localhost''\<rparr>)
   \<and> NewClient (Some relative_config) = Inr relative_client"
proof (intro conjI)
  show "url_Parse (BaseURL relative_config) = Inr (empty_URL\<lparr>Path := ''localhost''\<rparr>)"
    by code_simp
  show "\<not> IsAbs (empty_URL\<lparr>Path := ''localhost''\<rparr>)"
    by (simp add: IsAbs_def empty_URL_def)
  show "NewClient (Some relative_config) = Inr relative_client"
    by code_simp
qed

text \<open>
  Claim C5, amended. \<open>NewClient\<close> fails with a configuration error, and builds no
  client, when the base URL is empty and when \<open>url.Parse\<close> rejects it; it builds a
  client, around the parsed URL, for every other base URL, absolute or not. So it
  succeeds exactly when the base URL is not empty and \<open>url.Parse\<close> accepts it.
\<close>

theorem NewClient_succeeds_iff_parsed:
  "(BaseURL cfg = [] \<longrightarrow>
      NewClient (Some cfg) = Inl (MailpitError
        \<lparr>Cause = None, Type = ErrorTypeConfig, Message = ''BaseURL is required'',
         Response = [], StatusCode = 0\<rparr>))
   \<and> (BaseURL cfg \<noteq> [] \<and> url_Parse (BaseURL cfg) = Inl err \<longrightarrow>
      NewClient (Some cfg) = Inl (MailpitError
        \<lparr>Cause = Some err, Type = ErrorTypeConfig, Message = ''invalid BaseURL: '' @ err,
         Response = [], StatusCode = 0\<rparr>))
   \<and> (BaseURL cfg \<noteq> [] \<and> url_Parse (BaseURL cfg) = Inr u \<longrightarrow>
      (\<exists>c. NewClient (Some cfg) = Inr c \<and> baseURL c = u \<and>
           apiURL c = URL_String u @ (if APIPath cfg = [] then ''/api/v1'' else APIPath cfg)))
   \<and> ((\<exists>c. NewClient (Some cfg) = Inr c) \<longleftrightarrow>
        BaseURL cfg \<noteq> [] \<and> (\<exists>u. url_Parse (BaseURL cfg) = Inr u))"
  by (cases "url_Parse (BaseURL cfg)") (auto simp: NewClient_def config_error_def Let_def)

theorem NewClient_succeeds_iff_parsed_witness:
  "NewClient (Some (DefaultConfig\<lparr>BaseURL := []\<rparr>)) = Inl (MailpitError
        \<lparr>Cause = None, Type = ErrorTypeConfig, Message = ''BaseURL is required'',
         Response = [], StatusCode = 0\<rparr>)
   \<and> NewClient (Some (DefaultConfig\<lparr>BaseURL := ''://invalid-url''\<rparr>)) = Inl (MailpitError
        \<lparr>Cause = Some (parse_failure ''://invalid-url'' (ParseError ''missing protocol scheme'')),
         Type = ErrorTypeConfig,
         Message = ''invalid BaseURL: '' @
            parse_failure ''://invalid-url'' (ParseError ''missing protocol scheme''),
         Response = [], StatusCode = 0\<rparr>)
   \<and> (\<exists>c. NewClient (Some relative_config) = Inr c
        \<and> baseURL c = empty_URL\<lparr>Path := ''localhost''\<rparr> \<and> apiURL c = ''localhost/api/v1'')"
proof -
  have p1: "url_Parse ''://invalid-url'' =
      Inl (parse_failure ''://invalid-url'' (ParseError ''missing protocol scheme''))"
    by code_simp
  have p2: "url_Parse ''localhost'' = Inr (empty_URL\<lparr>Path := ''localhost''\<rparr>)"
    by code_simp
  have s2: "URL_String (empty_URL\<lparr>Path := ''localhost''\<rparr>) = ''localhost''"
    by code_simp
  show ?thesis
    using NewClient_succeeds_iff_parsed[of "DefaultConfig\<lparr>BaseURL := []\<rparr>"]
      NewClient_succeeds_iff_parsed[of "DefaultConfig\<lparr>BaseURL := ''://invalid-url''\<rparr>"
        "parse_failure ''://invalid-url'' (ParseError ''missing protocol scheme'')"]
      NewClient_succeeds_iff_parsed[of relative_config _ "empty_URL\<lparr>Path := ''localhost''\<rparr>"]
    by (simp add: p1 p2 s2 relative_config_def DefaultConfig_def)
qed

section \<open>Verification: attachment lists\<close>

lemma is_digit_digit_char: "d < 10 \<Longrightarrow> is_digit (digit_char d)"
  by (simp add: is_digit_def between_def digit_char_def less_eq_char_def)

lemma decimal_split: "int (n div 10) * 10 + int (n mod 10) = int n"
  by presburger

lemma digit_value_digit_char: "d < 10 \<Longrightarrow> digit_value (digit_char d) = int d"
  by (simp add: digit_value_def digit_char_def)

lemma utoa_digits: "list_all is_digit (utoa n)"
proof (induction n rule: utoa.induct)
  case (1 n)
  show ?case
  proof (cases "n < 10")
    case True
    then show ?thesis by (subst utoa.simps) (simp add: is_digit_digit_char)
  next
    case False
    then show ?thesis using 1 by (subst utoa.simps) (simp add: is_digit_digit_char)
  qed
qed

lemma utoa_not_Nil: "utoa n \<noteq> []"
  by (subst utoa.simps) simp

lemma utoa_value: "foldl (\<lambda>acc c. acc * 10 + digit_value c) 0 (utoa n) = int n"
proof (induction n rule: utoa.induct)
  case (1 n)
  show ?case
  proof (cases "n < 10")
    case True
    then show ?thesis by (subst utoa.simps) (simp add: digit_value_digit_char)
  next
    case False
    then show ?thesis using 1
      by (subst utoa.simps) (simp add: digit_value_digit_char decimal_split)
  qed
qed

lemma is_digit_not_sign: "is_digit c \<Longrightarrow> c \<noteq> CHR ''-'' \<and> c \<noteq> CHR ''+''"
  by (auto simp: is_digit_def between_def less_eq_char_def)

lemma utoa_hd: "hd (utoa n) \<noteq> CHR ''-'' \<and> hd (utoa n) \<noteq> CHR ''+''"
proof -
  have "is_digit (hd (utoa n))"
    using utoa_digits [of n] utoa_not_Nil [of n] by (cases "utoa n") simp_all
  then show ?thesis by (rule is_digit_not_sign)
qed

lemma ParseInt_Itoa: "fits_int n \<Longrightarrow> ParseInt (Itoa n) = Some n"
proof (cases "n < 0")
  case True
  assume "fits_int n"
  with True show ?thesis
    by (simp add: ParseInt_def Itoa_def Let_def utoa_not_Nil utoa_digits utoa_value fits_int_def)
next
  case False
  assume "fits_int n"
  with False show ?thesis
    using utoa_hd [of "nat n"]
    by (simp add: ParseInt_def Itoa_def Let_def utoa_not_Nil utoa_digits utoa_value fits_int_def)
qed

lemma find_field_exact: "f \<in> set struct_fields \<Longrightarrow> find_field struct_fields f = Some f"
  by (simp add: find_field_def)

lemma decode_attachment_object:
  "fits_int (Size a) \<Longrightarrow> decode_Attachment (attachment_object a) zero_Attachment = (None, a)"
  by (simp add: decode_Attachment_def attachment_object_def find_field_def struct_fields_def
      decode_Attachment_field_def decode_string_def decode_int_def ParseInt_Itoa
      zero_Attachment_def first_error_def)

lemma decode_attachment_objects:
  "list_all (\<lambda>a. fits_int (Size a)) as \<Longrightarrow>
   decode_elements (map attachment_object as) = (None, as)"
  by (induction as) (simp_all add: decode_attachment_object first_error_def)

text \<open>
  Claim C3. Decoding a text into an \<open>AttachmentList\<close> fails, with a syntax error and
  the list untouched, exactly when the text is not valid JSON. For every valid text it
  returns no error, and the list depends on the value the text holds: \<open>null\<close> gives
  the nil list; a number, an object, a boolean or a string gives the empty list; an array
  gives the attachments its elements decode to, or the empty list when an element does
  not decode, and in particular an array of attachment objects, with sizes that fit an
  \<open>int\<close>, gives exactly these attachments.
\<close>

theorem AttachmentList_decoding:
  "(json_parse data = None \<longrightarrow> Unmarshal_AttachmentList data al = (Some SyntaxError, al))
   \<and> (\<forall>j. json_parse data = Some j \<longrightarrow>
        (\<exists>v. Unmarshal_AttachmentList data al = (None, v)
           \<and> (j = JNull \<longrightarrow> v = None)
           \<and> (j \<noteq> JNull \<and> (\<forall>es. j \<noteq> JArray es) \<longrightarrow> v = Some [])
           \<and> (\<forall>es. j = JArray es \<longrightarrow>
                 v = Some (case decode_elements es of (None, as) \<Rightarrow> as | (Some e, as) \<Rightarrow> []))
           \<and> (\<forall>as. j = JArray (map attachment_object as)
                      \<and> list_all (\<lambda>a. fits_int (Size a)) as \<longrightarrow> v = Some as)))"
proof (intro conjI allI impI)
  assume "json_parse data = None"
  then show "Unmarshal_AttachmentList data al = (Some SyntaxError, al)"
    by (simp add: Unmarshal_AttachmentList_def)
next
  fix j
  assume p: "json_parse data = Some j"
  define v where "v = snd (Unmarshal_AttachmentList data al)"
  have ok: "Unmarshal_AttachmentList data al = (None, v)"
    unfolding v_def using p
    by (simp add: Unmarshal_AttachmentList_def UnmarshalJSON_def split: prod.splits option.splits)
  have u: "Unmarshal_AttachmentList data al = UnmarshalJSON data al"
    using p by (simp add: Unmarshal_AttachmentList_def)
  have null: "j = JNull \<longrightarrow> v = None"
    unfolding v_def u using p
    by (simp add: UnmarshalJSON_def json_Unmarshal_def decode_Attachments_def)
  have other: "j \<noteq> JNull \<and> (\<forall>es. j \<noteq> JArray es) \<longrightarrow> v = Some []"
    unfolding v_def u using p
    by (cases j)
      (simp_all add: UnmarshalJSON_def json_Unmarshal_def decode_Attachments_def
        split: prod.splits option.splits)
  have arr: "\<forall>es. j = JArray es \<longrightarrow>
      v = Some (case decode_elements es of (None, as) \<Rightarrow> as | (Some e, as) \<Rightarrow> [])"
    unfolding v_def u using p
    by (auto simp: UnmarshalJSON_def json_Unmarshal_def decode_Attachments_def
        split: prod.splits option.splits)
  have wf: "\<forall>as. j = JArray (map attachment_object as)
      \<and> list_all (\<lambda>a. fits_int (Size a)) as \<longrightarrow> v = Some as"
    using arr by (simp add: decode_attachment_objects)
  show "\<exists>v. Unmarshal_AttachmentList data al = (None, v)
           \<and> (j = JNull \<longrightarrow> v = None)
           \<and> (j \<noteq> JNull \<and> (\<forall>es. j \<noteq> JArray es) \<longrightarrow> v = Some [])
           \<and> (\<forall>es. j = JArray es \<longrightarrow>
                 v = Some (case decode_elements es of (None, as) \<Rightarrow> as | (Some e, as) \<Rightarrow> []))
           \<and> (\<forall>as. j = JArray (map attachment_object as)
                      \<and> list_all (\<lambda>a. fits_int (Size a)) as \<longrightarrow> v = Some as)"
    using ok null other arr wf by blast
qed

text \<open>
  The texts of the tests: two attachments, \<open>0\<close>, \<open>null\<close>, an object, a boolean,
  a string, and a text that is not JSON.
\<close>

theorem AttachmentList_decoding_witness:
  "Unmarshal_AttachmentList two_attachments_text None = (None, Some two_attachments)
   \<and> Unmarshal_AttachmentList ''0'' None = (None, Some [])
   \<and> Unmarshal_AttachmentList ''null'' (Some []) = (None, None)
   \<and> Unmarshal_AttachmentList object_text None = (None, Some [])
   \<and> Unmarshal_AttachmentList ''true'' None = (None, Some [])
   \<and> Unmarshal_AttachmentList string_text None = (None, Some [])
   \<and> Unmarshal_AttachmentList ''invalid json'' (Some []) = (Some SyntaxError, Some [])"
proof -
  have i: "Itoa 1024 = ''1024''" "Itoa 2048 = ''2048''" by code_simp+
  have "json_parse two_attachments_text = Some (JArray (map attachment_object two_attachments))"
    unfolding two_attachments_def attachment_object_def list.map Attachment.simps i
    by code_simp
  moreover have "list_all (\<lambda>a. fits_int (Size a)) two_attachments"
    by (simp add: two_attachments_def fits_int_def)
  ultimately have 1: "Unmarshal_AttachmentList two_attachments_text None = (None, Some two_attachments)"
    using AttachmentList_decoding [of two_attachments_text None] by auto
  have "json_parse ''0'' = Some (JNumber ''0'')" by code_simp
  then have 2: "Unmarshal_AttachmentList ''0'' None = (None, Some [])"
    using AttachmentList_decoding [of "''0''" None] by auto
  have "json_parse ''null'' = Some JNull" by code_simp
  then have 3: "Unmarshal_AttachmentList ''null'' (Some []) = (None, None)"
    using AttachmentList_decoding [of "''null''" "Some []"] by auto
  have "json_parse object_text = Some (JObject [(''count'', JNumber ''0'')])" by code_simp
  then have 4: "Unmarshal_AttachmentList object_text None = (None, Some [])"
    using AttachmentList_decoding [of object_text None] by auto
  have "json_parse ''true'' = Some (JBool True)" by code_simp
  then have 5: "Unmarshal_AttachmentList ''true'' None = (None, Some [])"
    using AttachmentList_decoding [of "''true''" None] by auto
  have "json_parse string_text = Some (JString ''none'')" by code_simp
  then have 6: "Unmarshal_AttachmentList string_text None = (None, Some [])"
    using AttachmentList_decoding [of string_text None] by auto
  have "json_parse ''invalid json'' = None" by code_simp
  then have 7: "Unmarshal_AttachmentList ''invalid json'' (Some []) = (Some SyntaxError, Some [])"
    using AttachmentList_decoding [of "''invalid json''" "Some []"] by auto
  show ?thesis using 1 2 3 4 5 6 7 by simp
qed

end
